theory Spec2Isabelle
  imports Main "HOL-Library.Word"
begin

unbundle bit_operations_syntax

section \<open>Requests, responses and the request context\<close>

text \<open>
  Go's \<open>uint\<close> is taken at its 64-bit width. Strings are byte strings. A handler of the
  chain either calls \<open>c.Next()\<close>, or writes a JSON body \<open>{"error": msg}\<close> with a status
  and calls \<open>c.Abort()\<close>, or panics (a failed type assertion).
\<close>

type_synonym uint = "64 word"

datatype any = Nil | Uint uint | Str string

type_synonym Keys = "string \<rightharpoonup> any"

record request =
  Path :: string
  Header :: "string \<rightharpoonup> string"
  Params :: "string \<rightharpoonup> string"

datatype outcome = Next | Abort nat string | Panic

definition GetHeader :: "request \<Rightarrow> string \<Rightarrow> string" where
  "GetHeader req k = (case Header req k of None \<Rightarrow> [] | Some v \<Rightarrow> v)"

definition Param :: "request \<Rightarrow> string \<Rightarrow> string" where
  "Param req k = (case Params req k of None \<Rightarrow> [] | Some v \<Rightarrow> v)"

definition StatusBadRequest :: nat where "StatusBadRequest = 400"
definition StatusUnauthorized :: nat where "StatusUnauthorized = 401"
definition StatusForbidden :: nat where "StatusForbidden = 403"

section \<open>The standard library functions the middleware calls\<close>

text \<open>\<open>strings.HasPrefix\<close> and \<open>strings.Split\<close> with a separator of one byte.\<close>

definition HasPrefix :: "string \<Rightarrow> string \<Rightarrow> bool" where
  "HasPrefix s p = (take (length p) s = p)"

fun Split :: "string \<Rightarrow> char \<Rightarrow> string list" where
  "Split [] sep = [[]]"
| "Split (c # cs) sep =
     (if c = sep then [] # Split cs sep
      else (case Split cs sep of [] \<Rightarrow> [[c]] | p # ps \<Rightarrow> (c # p) # ps))"

text \<open>
  \<open>strconv.ParseUint(s, 10, bitSize)\<close>: the empty string and any byte that is not a
  decimal digit are syntax errors, a value above \<open>2^bitSize - 1\<close> is a range error; the
  loop reports whichever it meets first. No sign and no underscore is accepted in base 10.
\<close>

datatype NumError = ErrSyntax | ErrRange

definition is_digit :: "char \<Rightarrow> bool" where
  "is_digit c = (48 \<le> (of_char c :: nat) \<and> (of_char c :: nat) \<le> 57)"

definition digit_val :: "char \<Rightarrow> nat" where
  "digit_val c = (of_char c :: nat) - 48"

fun parse_digits :: "nat \<Rightarrow> nat \<Rightarrow> string \<Rightarrow> NumError + nat" where
  "parse_digits maxVal n [] = Inr n"
| "parse_digits maxVal n (c # cs) =
     (if \<not> is_digit c then Inl ErrSyntax
      else if n * 10 + digit_val c > maxVal then Inl ErrRange
      else parse_digits maxVal (n * 10 + digit_val c) cs)"

definition ParseUint :: "string \<Rightarrow> nat \<Rightarrow> NumError + 64 word" where
  "ParseUint s bitSize =
     (if s = [] then Inl ErrSyntax
      else (case parse_digits (2 ^ bitSize - 1) 0 s of
              Inl e \<Rightarrow> Inl e
            | Inr n \<Rightarrow> Inr (of_nat n)))"

section \<open>The authorization gates\<close>

text \<open>\<open>LoginRequired\<close>: the \<open>userID\<close> key must exist and must not hold nil.\<close>

definition LoginRequired :: "request \<Rightarrow> Keys \<Rightarrow> outcome" where
  "LoginRequired req keys =
     (case keys ''userID'' of
        None \<Rightarrow> Abort StatusUnauthorized ''Authentication required''
      | Some userID \<Rightarrow>
          if userID = Nil then Abort StatusUnauthorized ''Authentication required''
          else Next)"

text \<open>\<open>TeacherRequired\<close>: authenticated as above, then the \<open>role\<close> key must be the string teacher.\<close>

definition TeacherRequired :: "request \<Rightarrow> Keys \<Rightarrow> outcome" where
  "TeacherRequired req keys =
     (case keys ''userID'' of
        None \<Rightarrow> Abort StatusUnauthorized ''Authentication required''
      | Some userID \<Rightarrow>
          if userID = Nil then Abort StatusUnauthorized ''Authentication required''
          else (case keys ''role'' of
                  None \<Rightarrow> Abort StatusForbidden ''Teacher privileges required''
                | Some role \<Rightarrow>
                    if role \<noteq> Str ''teacher''
                    then Abort StatusForbidden ''Teacher privileges required''
                    else Next))"

text \<open>
  \<open>CanModifyUser\<close>: the route parameter is parsed first, then the \<open>userID\<close> key must
  exist, then a teacher passes, then the owner passes. \<open>c.Get("role")\<close> of a missing key
  is nil, which is not the string teacher. The assertion \<open>authenticatedUserID.(uint)\<close>
  panics on a value that is not a \<open>uint\<close>; \<open>uint(targetID)\<close> keeps the value, which is
  below \<open>2^32\<close>.
\<close>

definition CanModifyUser :: "request \<Rightarrow> Keys \<Rightarrow> outcome" where
  "CanModifyUser req keys =
     (case ParseUint (Param req ''id'') 32 of
        Inl err \<Rightarrow> Abort StatusBadRequest ''Invalid user ID''
      | Inr targetID \<Rightarrow>
          (case keys ''userID'' of
             None \<Rightarrow> Abort StatusUnauthorized ''Authentication required''
           | Some authenticatedUserID \<Rightarrow>
               if keys ''role'' = Some (Str ''teacher'') then Next
               else (case authenticatedUserID of
                       Uint u \<Rightarrow>
                         if u = targetID then Next
                         else Abort StatusForbidden ''You can only modify your own profile''
                     | _ \<Rightarrow> Panic)))"

text \<open>
  An identity is in the context when the keys hold what the authentication filter sets:
  the subject id as a \<open>uint\<close> under \<open>userID\<close> and the role as a string under \<open>role\<close>.
\<close>

definition identity :: "Keys \<Rightarrow> uint \<Rightarrow> string \<Rightarrow> bool" where
  "identity keys uid role = (keys ''userID'' = Some (Uint uid) \<and> keys ''role'' = Some (Str role))"

section \<open>Configuration\<close>

record ServerConfig =
  Server_Host :: string
  Server_Port :: int

record ApplicationConfig =
  Secret :: string

record DatabaseConfig =
  Driver :: string
  Database_Host :: string
  Database_Port :: int
  User :: string
  Password :: string
  Name :: string

record LoggingConfig =
  Level :: string
  Format :: string

record Config =
  Server :: ServerConfig
  Database :: DatabaseConfig
  Logging :: LoggingConfig
  Application :: ApplicationConfig

type_synonym environ = "string \<rightharpoonup> string"

text \<open>\<open>os.Getenv\<close> gives the empty string for a variable that is not set.\<close>

definition Getenv :: "environ \<Rightarrow> string \<Rightarrow> string" where
  "Getenv env k = (case env k of None \<Rightarrow> [] | Some v \<Rightarrow> v)"

text \<open>
  \<open>strconv.Atoi\<close>: an optional sign, then at least one decimal digit, and the value must
  fit the 64-bit \<open>int\<close>.
\<close>

definition Atoi :: "string \<Rightarrow> NumError + int" where
  "Atoi s =
     (case s of
        [] \<Rightarrow> Inl ErrSyntax
      | c # cs \<Rightarrow>
          (let neg = (c = CHR ''-'');
               body = (if c = CHR ''-'' \<or> c = CHR ''+'' then cs else s)
           in if body = [] then Inl ErrSyntax
              else (case parse_digits (2 ^ 64 - 1) 0 body of
                      Inl e \<Rightarrow> Inl e
                    | Inr n \<Rightarrow>
                        if \<not> neg \<and> n \<ge> 2 ^ 63 then Inl ErrRange
                        else if neg \<and> n > 2 ^ 63 then Inl ErrRange
                        else Inr (if neg then - int n else int n))))"

text \<open>The defaults that \<open>LoadConfig\<close> starts from.\<close>

definition defaultConfig :: Config where
  "defaultConfig =
     \<lparr>Server = \<lparr>Server_Host = ''127.0.0.1'', Server_Port = 8080\<rparr>,
      Database = \<lparr>Driver = ''postgres'', Database_Host = ''localhost'', Database_Port = 5432,
                  User = ''postgres'', Password = ''postgres'', Name = ''jiaxun''\<rparr>,
      Logging = \<lparr>Level = ''info'', Format = ''text''\<rparr>,
      Application = \<lparr>Secret = ''mysecret''\<rparr>\<rparr>"

text \<open>\<open>overrideFromEnv\<close>: one conditional assignment per variable, in the source's order.\<close>

definition overrideFromEnv :: "environ \<Rightarrow> Config \<Rightarrow> Config" where
  "overrideFromEnv env cfg =
     (let srv = Server cfg;
          srv = (if Getenv env ''SERVER_HOST'' \<noteq> []
                 then srv\<lparr>Server_Host := Getenv env ''SERVER_HOST''\<rparr> else srv);
          srv = (if Getenv env ''SERVER_PORT'' \<noteq> []
                 then (case Atoi (Getenv env ''SERVER_PORT'') of
                         Inr p \<Rightarrow> srv\<lparr>Server_Port := p\<rparr> | Inl e \<Rightarrow> srv)
                 else srv);
          db = Database cfg;
          db = (if Getenv env ''DB_DRIVER'' \<noteq> []
                then db\<lparr>Driver := Getenv env ''DB_DRIVER''\<rparr> else db);
          db = (if Getenv env ''DB_HOST'' \<noteq> []
                then db\<lparr>Database_Host := Getenv env ''DB_HOST''\<rparr> else db);
          db = (if Getenv env ''DB_PORT'' \<noteq> []
                then (case Atoi (Getenv env ''DB_PORT'') of
                        Inr p \<Rightarrow> db\<lparr>Database_Port := p\<rparr> | Inl e \<Rightarrow> db)
                else db);
          db = (if Getenv env ''DB_USER'' \<noteq> []
                then db\<lparr>User := Getenv env ''DB_USER''\<rparr> else db);
          db = (if Getenv env ''DB_PASSWORD'' \<noteq> []
                then db\<lparr>Password := Getenv env ''DB_PASSWORD''\<rparr> else db);
          db = (if Getenv env ''DB_NAME'' \<noteq> []
                then db\<lparr>Name := Getenv env ''DB_NAME''\<rparr> else db);
          lg = Logging cfg;
          lg = (if Getenv env ''LOG_LEVEL'' \<noteq> []
                then lg\<lparr>Level := Getenv env ''LOG_LEVEL''\<rparr> else lg);
          lg = (if Getenv env ''LOG_FORMAT'' \<noteq> []
                then lg\<lparr>Format := Getenv env ''LOG_FORMAT''\<rparr> else lg)
      in cfg\<lparr>Server := srv, Database := db, Logging := lg\<rparr>)"

text \<open>
  \<open>LoadConfig\<close>, run once. What \<open>loadFromFile\<close> does to the defaults depends on the file
  system and on the JSON decoder, so it is the parameter \<open>loadFromFile\<close>: the configuration
  it leaves and its error, if any. On an error \<open>LoadConfig\<close> returns before the
  environment is read.
\<close>

definition LoadConfig ::
  "(string \<Rightarrow> Config \<Rightarrow> Config \<times> string option) \<Rightarrow> environ \<Rightarrow> string
     \<Rightarrow> Config \<times> string option" where
  "LoadConfig loadFromFile env configFile =
     (let instance = defaultConfig in
      if configFile \<noteq> [] then
        (case loadFromFile configFile instance of
           (instance', Some err) \<Rightarrow> (instance', Some (''loading config: '' @ err))
         | (instance', None) \<Rightarrow> (overrideFromEnv env instance', None))
      else (overrideFromEnv env instance, None))"

text \<open>The verb \<open>%d\<close> of \<open>fmt\<close>: an integer in decimal, with a minus sign when negative.\<close>

fun decimal :: "nat \<Rightarrow> string" where
  "decimal n =
     (if n < 10 then [''0123456789'' ! n]
      else decimal (n div 10) @ [''0123456789'' ! (n mod 10)])"

definition format_int :: "int \<Rightarrow> string" where
  "format_int i = (if i < 0 then ''-'' @ decimal (nat (- i)) else decimal (nat i))"

text \<open>\<open>Validate\<close> checks the port and the database fields; it does not read the secret.\<close>

definition Validate :: "Config \<Rightarrow> string option" where
  "Validate c =
     (if Server_Port (Server c) \<le> 0 \<or> Server_Port (Server c) > 65535
        then Some (''invalid server port: '' @ format_int (Server_Port (Server c)))
      else if Database_Host (Database c) = [] then Some ''database host is required''
      else if User (Database c) = [] then Some ''database user is required''
      else if Password (Database c) = [] then Some ''database password is required''
      else if Name (Database c) = [] then Some ''database name is required''
      else None)"

text \<open>The root user that \<open>InitDB\<close> creates when none exists.\<close>

record User =
  Username :: string
  User_Email :: string
  User_Password :: string
  FullName :: string
  User_Role :: string

definition rootUser :: "string \<Rightarrow> User" where
  "rootUser hashedPassword =
     \<lparr>Username = ''root'', User_Email = ''root@example.com'', User_Password = hashedPassword,
      FullName = ''System Administrator'', User_Role = ''admin''\<rparr>"

section \<open>The token codec\<close>

text \<open>
  Modelled from the spec: the Token Codec of section 4.1. The repository takes it from the
  library \<open>github.com/golang-jwt/jwt/v5\<close>, whose code is not among the sources. Verify
  parses the serialized token, has the caller's key function check the signing algorithm,
  checks the signature against the key, then checks the expiry; it fails with Malformed,
  Unverifiable (the spec's Other), BadSignature or Expired. The definitions below follow
  the library's \<open>ParseWithClaims\<close> and \<open>SignedString\<close> in that order.

  Times are Unix times in nanoseconds; a numeric date of a token is truncated to the second.
\<close>

type_synonym time = int

definition Second :: int where "Second = 1000000000"
definition Hour :: int where "Hour = 3600 * Second"

definition NewNumericDate :: "time \<Rightarrow> time" where
  "NewNumericDate t = (t div Second) * Second"

record JWTClaims =
  UserID :: uint
  Email :: string
  Role :: string
  Issuer :: string
  ExpiresAt :: "time option"
  NotBefore :: "time option"
  IssuedAt :: "time option"

datatype sentinel =
    ErrTokenMalformed | ErrTokenUnverifiable | ErrTokenSignatureInvalid
  | ErrTokenInvalidClaims | ErrTokenExpired | ErrTokenNotValidYet
  | ErrSignatureInvalid | ErrInvalidKeyType

fun sentinel_text :: "sentinel \<Rightarrow> string" where
  "sentinel_text ErrTokenMalformed = ''token is malformed''"
| "sentinel_text ErrTokenUnverifiable = ''token is unverifiable''"
| "sentinel_text ErrTokenSignatureInvalid = ''token signature is invalid''"
| "sentinel_text ErrTokenInvalidClaims = ''token has invalid claims''"
| "sentinel_text ErrTokenExpired = ''token is expired''"
| "sentinel_text ErrTokenNotValidYet = ''token is not valid yet''"
| "sentinel_text ErrSignatureInvalid = ''signature is invalid''"
| "sentinel_text ErrInvalidKeyType = ''key is of invalid type''"

text \<open>
  An error value: the sentinels that \<open>errors.Is\<close> finds in its chain, and the text that
  \<open>Error()\<close> returns.
\<close>

record error =
  unwrap :: "sentinel list"
  Error :: string

definition Is :: "error \<Rightarrow> sentinel \<Rightarrow> bool" where
  "Is err s = (s \<in> set (unwrap err))"

definition the_sentinel :: "sentinel \<Rightarrow> error" where
  "the_sentinel s = \<lparr>unwrap = [s], Error = sentinel_text s\<rparr>"

definition Errorf :: "string \<Rightarrow> error" where
  "Errorf msg = \<lparr>unwrap = [], Error = msg\<rparr>"

definition newError :: "string \<Rightarrow> sentinel \<Rightarrow> error list \<Rightarrow> error" where
  "newError msg s causes =
     \<lparr>unwrap = s # concat (map unwrap causes),
      Error = sentinel_text s @ (if msg \<noteq> [] then '': '' @ msg else [])
                @ concat (map (\<lambda>e. '': '' @ Error e) causes)\<rparr>"

fun join_text :: "string list \<Rightarrow> string" where
  "join_text [] = []"
| "join_text [x] = x"
| "join_text (x # y # ys) = x @ '', '' @ join_text (y # ys)"

definition joinErrors :: "error list \<Rightarrow> error" where
  "joinErrors errs = \<lparr>unwrap = concat (map unwrap errs), Error = join_text (map Error errs)\<rparr>"

datatype SigningMethod = SigningMethodHMAC string | SigningMethodOther string

definition SigningMethodHS256 :: SigningMethod where
  "SigningMethodHS256 = SigningMethodHMAC ''HS256''"

fun Alg :: "SigningMethod \<Rightarrow> string" where
  "Alg (SigningMethodHMAC a) = a"
| "Alg (SigningMethodOther a) = a"

text \<open>The registered signing methods: the three HMAC ones, and the others.\<close>

definition hmac_algs :: "string list" where
  "hmac_algs = [''HS256'', ''HS384'', ''HS512'']"

definition other_algs :: "string list" where
  "other_algs = [''RS256'', ''RS384'', ''RS512'', ''PS256'', ''PS384'', ''PS512'',
                 ''ES256'', ''ES384'', ''ES512'', ''EdDSA'', ''none'']"

definition GetSigningMethod :: "string \<Rightarrow> SigningMethod option" where
  "GetSigningMethod a =
     (if a \<in> set hmac_algs then Some (SigningMethodHMAC a)
      else if a \<in> set other_algs then Some (SigningMethodOther a)
      else None)"

record Token =
  Method :: SigningMethod
  alg :: string
  Claims :: JWTClaims
  Signature :: string
  Valid :: bool

text \<open>
  The primitives under the codec stay parameters: the encoding of each of the three
  segments (base64url over JSON for the header and the claims, base64url for the
  signature) with its decoder, and the hash function of each algorithm. A header decodes
  to its \<open>alg\<close> entry, if it has one. A segment that does not decode makes the token
  malformed, whichever of the two steps refuses it.
\<close>

record jwt_lib =
  encode_header :: "string \<Rightarrow> string"
  decode_header :: "string \<Rightarrow> string option option"
  encode_claims :: "JWTClaims \<Rightarrow> string"
  decode_claims :: "string \<Rightarrow> JWTClaims option"
  EncodeSegment :: "string \<Rightarrow> string"
  DecodeSegment :: "string \<Rightarrow> string option"
  digest :: "string \<Rightarrow> string \<Rightarrow> string"

text \<open>
  HMAC as \<open>crypto/hmac\<close> computes it: a key longer than the block is hashed, the key is
  copied into a zeroed block, and the two pads are the block xor \<open>0x36\<close> and \<open>0x5c\<close>.
\<close>

definition xor_byte :: "nat \<Rightarrow> char \<Rightarrow> char" where
  "xor_byte n c = char_of ((of_char c :: nat) XOR n)"

definition BlockSize :: "string \<Rightarrow> nat" where
  "BlockSize a = (if a = ''HS256'' then 64 else 128)"

definition hmac :: "jwt_lib \<Rightarrow> string \<Rightarrow> string \<Rightarrow> string \<Rightarrow> string" where
  "hmac L a key msg =
     (let blocksize = BlockSize a;
          key = (if length key > blocksize then digest L a key else key);
          block = key @ replicate (blocksize - length key) (CHR 0x00);
          ipad = map (xor_byte 0x36) block;
          opad = map (xor_byte 0x5c) block
      in digest L a (opad @ digest L a (ipad @ msg)))"

text \<open>
  Signing and verifying with a key that is a byte string: the HMAC methods take it, every
  other method refuses the key's type.
\<close>

fun Sign :: "jwt_lib \<Rightarrow> SigningMethod \<Rightarrow> string \<Rightarrow> string \<Rightarrow> error + string" where
  "Sign L (SigningMethodHMAC a) signingString key = Inr (hmac L a key signingString)"
| "Sign L (SigningMethodOther a) signingString key = Inl (the_sentinel ErrInvalidKeyType)"

fun Verify :: "jwt_lib \<Rightarrow> SigningMethod \<Rightarrow> string \<Rightarrow> string \<Rightarrow> string \<Rightarrow> error option" where
  "Verify L (SigningMethodHMAC a) signingString sig key =
     (if sig = hmac L a key signingString then None else Some (the_sentinel ErrSignatureInvalid))"
| "Verify L (SigningMethodOther a) signingString sig key = Some (the_sentinel ErrInvalidKeyType)"

definition NewWithClaims :: "SigningMethod \<Rightarrow> JWTClaims \<Rightarrow> Token" where
  "NewWithClaims method claims =
     \<lparr>Method = method, alg = Alg method, Claims = claims, Signature = [], Valid = False\<rparr>"

definition SigningString :: "jwt_lib \<Rightarrow> Token \<Rightarrow> string" where
  "SigningString L token = encode_header L (alg token) @ ''.'' @ encode_claims L (Claims token)"

definition SignedString :: "jwt_lib \<Rightarrow> Token \<Rightarrow> string \<Rightarrow> error + string" where
  "SignedString L token key =
     (let sstr = SigningString L token in
      case Sign L (Method token) sstr key of
        Inl err \<Rightarrow> Inl err
      | Inr sig \<Rightarrow> Inr (sstr @ ''.'' @ EncodeSegment L sig))"

text \<open>
  The default validator: an expiry, when present, must be after now; a not-before, when
  present, must not be after now; issued-at is not checked.
\<close>

definition Validator_Validate :: "JWTClaims \<Rightarrow> time \<Rightarrow> error option" where
  "Validator_Validate claims now =
     (let errs =
            (case ExpiresAt claims of
               None \<Rightarrow> []
             | Some exp \<Rightarrow> if now < exp then [] else [the_sentinel ErrTokenExpired])
          @ (case NotBefore claims of
               None \<Rightarrow> []
             | Some nbf \<Rightarrow> if \<not> now < nbf then [] else [the_sentinel ErrTokenNotValidYet])
      in if errs = [] then None else Some (joinErrors errs))"

definition ParseUnverified :: "jwt_lib \<Rightarrow> string \<Rightarrow> error + (Token \<times> string \<times> string \<times> string)" where
  "ParseUnverified L tokenString =
     (case Split tokenString (CHR ''.'') of
        [h, c, s] \<Rightarrow>
          (case decode_header L h of
             None \<Rightarrow> Inl (newError ''could not decode header'' ErrTokenMalformed [])
           | Some header \<Rightarrow>
               (case decode_claims L c of
                  None \<Rightarrow> Inl (newError ''could not decode claim'' ErrTokenMalformed [])
                | Some claims \<Rightarrow>
                    (case header of
                       None \<Rightarrow>
                         Inl (newError ''signing method (alg) is unspecified'' ErrTokenUnverifiable [])
                     | Some a \<Rightarrow>
                         (case GetSigningMethod a of
                            None \<Rightarrow>
                              Inl (newError ''signing method (alg) is unavailable''
                                     ErrTokenUnverifiable [])
                          | Some method \<Rightarrow>
                              Inr (\<lparr>Method = method, alg = a, Claims = claims,
                                    Signature = [], Valid = False\<rparr>, h, c, s)))))
      | _ \<Rightarrow> Inl (newError ''token contains an invalid number of segments'' ErrTokenMalformed []))"

definition ParseWithClaims ::
  "jwt_lib \<Rightarrow> string \<Rightarrow> (Token \<Rightarrow> error + string) \<Rightarrow> time \<Rightarrow> error + Token" where
  "ParseWithClaims L tokenString keyFunc now =
     (case ParseUnverified L tokenString of
        Inl err \<Rightarrow> Inl err
      | Inr (token, h, c, s) \<Rightarrow>
          (case DecodeSegment L s of
             None \<Rightarrow> Inl (newError ''could not base64 decode signature'' ErrTokenMalformed [])
           | Some sig \<Rightarrow>
               (let token = token\<lparr>Signature := sig\<rparr>;
                    text = h @ ''.'' @ c
                in case keyFunc token of
                     Inl err \<Rightarrow>
                       Inl (newError ''error while executing keyfunc'' ErrTokenUnverifiable [err])
                   | Inr key \<Rightarrow>
                       (case Verify L (Method token) text sig key of
                          Some err \<Rightarrow> Inl (newError [] ErrTokenSignatureInvalid [err])
                        | None \<Rightarrow>
                            (case Validator_Validate (Claims token) now of
                               Some err \<Rightarrow> Inl (newError [] ErrTokenInvalidClaims [err])
                             | None \<Rightarrow> Inr (token\<lparr>Valid := True\<rparr>))))))"

section \<open>The authentication filter and the token issuer\<close>

definition publicPaths :: "string list" where
  "publicPaths = [''/api/auth/login'', ''/api/auth/register'', ''/api/health'']"

text \<open>
  The key function of the filter: only an HMAC method gets the configured secret; any
  other method is an error that names the header's algorithm.
\<close>

definition keyFunc :: "Config \<Rightarrow> Token \<Rightarrow> error + string" where
  "keyFunc cfg token =
     (case Method token of
        SigningMethodHMAC a \<Rightarrow> Inr (Secret (Application cfg))
      | SigningMethodOther a \<Rightarrow> Inl (Errorf (''unexpected signing method: '' @ alg token)))"

text \<open>
  \<open>AuthMiddleware\<close>: the outcome and the context keys it leaves. The configuration and
  the clock are arguments.
\<close>

definition AuthMiddleware ::
  "jwt_lib \<Rightarrow> Config \<Rightarrow> time \<Rightarrow> request \<Rightarrow> Keys \<Rightarrow> outcome \<times> Keys" where
  "AuthMiddleware L cfg now req keys =
     (if list_ex (\<lambda>p. HasPrefix (Path req) p) publicPaths then (Next, keys)
      else
        (let authHeader = GetHeader req ''Authorization'' in
         if authHeader = [] then (Abort 401 ''Authorization header is required'', keys)
         else
           (let parts = Split authHeader (CHR '' '') in
            if length parts \<noteq> 2 \<or> parts ! 0 \<noteq> ''Bearer''
            then (Abort 401 ''Authorization header format must be Bearer {token}'', keys)
            else
              (let tokenString = parts ! 1 in
               case ParseWithClaims L tokenString (keyFunc cfg) now of
                 Inl err \<Rightarrow>
                   (if Is err ErrTokenExpired then (Abort 401 ''Token has expired'', keys)
                    else if Is err ErrTokenMalformed then (Abort 401 ''Malformed token'', keys)
                    else if Is err ErrTokenSignatureInvalid
                      then (Abort 401 ''Invalid token signature'', keys)
                    else (Abort 401 (''Invalid token: '' @ Error err), keys))
               | Inr token \<Rightarrow>
                   if \<not> Valid token then (Abort 401 ''Invalid token'', keys)
                   else (Next, keys(''userID'' \<mapsto> Uint (UserID (Claims token)),
                                    ''email'' \<mapsto> Str (Email (Claims token)),
                                    ''role'' \<mapsto> Str (Role (Claims token))))))))"

text \<open>\<open>GenerateToken\<close> reads the clock twice: for the expiry and for issued-at.\<close>

definition GenerateToken ::
  "jwt_lib \<Rightarrow> Config \<Rightarrow> time \<Rightarrow> time \<Rightarrow> uint \<Rightarrow> string \<Rightarrow> string \<Rightarrow> error + string" where
  "GenerateToken L cfg now1 now2 userID email role =
     (let expirationTime = now1 + 24 * Hour;
          claims = \<lparr>UserID = userID, Email = email, Role = role, Issuer = ''jiaxun'',
                    ExpiresAt = Some (NewNumericDate expirationTime), NotBefore = None,
                    IssuedAt = Some (NewNumericDate now2)\<rparr>;
          token = NewWithClaims SigningMethodHS256 claims;
          jwtSecret = Secret (Application cfg)
      in case SignedString L token jwtSecret of
           Inl err \<Rightarrow> Inl err
         | Inr tokenString \<Rightarrow> Inr tokenString)"

text \<open>
  The chain of the routes \<open>PUT\<close> and \<open>DELETE /api/users/:id\<close> as \<open>NewUserHandler\<close>
  registers it: the filter first, then \<open>CanModifyUser\<close> on the context the filter left;
  a handler that aborts ends the chain.
\<close>

definition user_owner_chain ::
  "jwt_lib \<Rightarrow> Config \<Rightarrow> time \<Rightarrow> request \<Rightarrow> Keys \<Rightarrow> outcome \<times> Keys" where
  "user_owner_chain L cfg now req keys =
     (case AuthMiddleware L cfg now req keys of
        (Next, keys') \<Rightarrow> (CanModifyUser req keys', keys')
      | (out, keys') \<Rightarrow> (out, keys'))"

section \<open>What a token string carries\<close>

text \<open>
  The notions the properties are stated with, read off a token string and a request: the
  algorithm its header declares, its decoded parts, whether its signature is the HMAC of
  its first two segments under a key, and the claims of a token that verifies under a key
  at a time. The bearer token of a request is the second of exactly two space-separated
  parts of the \<open>Authorization\<close> header, the first being \<open>Bearer\<close>.
\<close>

definition declared_alg :: "jwt_lib \<Rightarrow> string \<Rightarrow> string option" where
  "declared_alg L tok =
     (case Split tok (CHR ''.'') of
        [] \<Rightarrow> None
      | h # rest \<Rightarrow> (case decode_header L h of Some (Some a) \<Rightarrow> Some a | _ \<Rightarrow> None))"

definition token_parts :: "jwt_lib \<Rightarrow> string \<Rightarrow> (string \<times> JWTClaims \<times> string \<times> string) option" where
  "token_parts L tok =
     (case Split tok (CHR ''.'') of
        [h, c, s] \<Rightarrow>
          (case decode_header L h of
             Some (Some a) \<Rightarrow>
               (case decode_claims L c of
                  Some cl \<Rightarrow>
                    (case DecodeSegment L s of
                       Some sg \<Rightarrow> Some (a, cl, sg, h @ ''.'' @ c)
                     | None \<Rightarrow> None)
                | None \<Rightarrow> None)
           | _ \<Rightarrow> None)
      | _ \<Rightarrow> None)"

definition signed_with :: "jwt_lib \<Rightarrow> string \<Rightarrow> string \<Rightarrow> bool" where
  "signed_with L key tok =
     (case token_parts L tok of
        None \<Rightarrow> False
      | Some (a, cl, sg, input) \<Rightarrow> a \<in> set hmac_algs \<and> sg = hmac L a key input)"

definition verified :: "jwt_lib \<Rightarrow> string \<Rightarrow> time \<Rightarrow> string \<Rightarrow> JWTClaims option" where
  "verified L key now tok =
     (case token_parts L tok of
        None \<Rightarrow> None
      | Some (a, cl, sg, input) \<Rightarrow>
          if a \<in> set hmac_algs \<and> sg = hmac L a key input \<and> Validator_Validate cl now = None
          then Some cl else None)"

definition bearer_token :: "request \<Rightarrow> string option" where
  "bearer_token req =
     (case Split (GetHeader req ''Authorization'') (CHR '' '') of
        [b, t] \<Rightarrow> if b = ''Bearer'' then Some t else None
      | _ \<Rightarrow> None)"

definition is_public :: "string \<Rightarrow> bool" where
  "is_public path = list_ex (\<lambda>p. HasPrefix path p) publicPaths"

definition with_identity :: "Keys \<Rightarrow> JWTClaims \<Rightarrow> Keys" where
  "with_identity keys cl =
     keys(''userID'' \<mapsto> Uint (UserID cl), ''email'' \<mapsto> Str (Email cl), ''role'' \<mapsto> Str (Role cl))"

definition url_safe :: "string \<Rightarrow> bool" where
  "url_safe s = (CHR ''.'' \<notin> set s \<and> CHR '' '' \<notin> set s)"

text \<open>
  The encodings carry a token with algorithm \<open>a\<close>, claims \<open>cl\<close> and signature \<open>sg\<close>
  when each segment decodes to what was encoded and holds neither a dot nor a space, as
  base64url text does.
\<close>

definition carries :: "jwt_lib \<Rightarrow> string \<Rightarrow> JWTClaims \<Rightarrow> string \<Rightarrow> bool" where
  "carries L a cl sg =
     (decode_header L (encode_header L a) = Some (Some a) \<and>
      decode_claims L (encode_claims L cl) = Some cl \<and>
      DecodeSegment L (EncodeSegment L sg) = Some sg \<and>
      url_safe (encode_header L a) \<and> url_safe (encode_claims L cl) \<and>
      url_safe (EncodeSegment L sg))"

text \<open>
  The claims that \<open>GenerateToken\<close> puts into a token, and the signature it computes for
  them under a key.
\<close>

definition issued_claims :: "time \<Rightarrow> time \<Rightarrow> uint \<Rightarrow> string \<Rightarrow> string \<Rightarrow> JWTClaims" where
  "issued_claims now1 now2 userID email role =
     \<lparr>UserID = userID, Email = email, Role = role, Issuer = ''jiaxun'',
      ExpiresAt = Some (NewNumericDate (now1 + 24 * Hour)), NotBefore = None,
      IssuedAt = Some (NewNumericDate now2)\<rparr>"

definition issued_signature :: "jwt_lib \<Rightarrow> string \<Rightarrow> JWTClaims \<Rightarrow> string" where
  "issued_signature L key cl =
     hmac L ''HS256'' key (encode_header L ''HS256'' @ ''.'' @ encode_claims L cl)"

section \<open>An executable instance of the primitives\<close>

text \<open>
  To run the definitions on examples: the header segment is the algorithm name in clear
  (\<open>-\<close> for a header without one), the claims segment is a name from a fixed book of
  claims, the signature segment is the signature itself, and the digest is a one-byte
  checksum written in hexadecimal.
\<close>

definition hex_digit :: "nat \<Rightarrow> char" where
  "hex_digit n = ''0123456789abcdef'' ! n"

definition checksum :: "string \<Rightarrow> string \<Rightarrow> string" where
  "checksum a m =
     (let n = sum_list (map of_char m) mod 256 in [hex_digit (n div 16), hex_digit (n mod 16)])"

definition amy :: JWTClaims where
  "amy = \<lparr>UserID = 7, Email = ''amy@example.com'', Role = ''student'', Issuer = ''jiaxun'',
          ExpiresAt = Some 1700086400000000000, NotBefore = None,
          IssuedAt = Some 1700000000000000000\<rparr>"

definition book :: "(string \<times> JWTClaims) list" where
  "book = [(''amy'', amy)]"

definition plain_lib :: jwt_lib where
  "plain_lib =
     \<lparr>encode_header = (\<lambda>a. a),
      decode_header =
        (\<lambda>s. if s = [] then None else if s = ''-'' then Some None else Some (Some s)),
      encode_claims =
        (\<lambda>c. case find (\<lambda>(s, c'). c' = c) book of Some (s, c') \<Rightarrow> s | None \<Rightarrow> ''?''),
      decode_claims = map_of book,
      EncodeSegment = (\<lambda>s. s),
      DecodeSegment = Some,
      digest = checksum\<rparr>"

definition user_request :: "string \<Rightarrow> request" where
  "user_request ident =
     \<lparr>Path = ''/api/users/'' @ ident, Header = Map.empty, Params = [''id'' \<mapsto> ident]\<rparr>"

definition owner_request :: "string \<Rightarrow> string \<Rightarrow> request" where
  "owner_request ident tok =
     \<lparr>Path = ''/api/users/'' @ ident, Header = [''Authorization'' \<mapsto> ''Bearer '' @ tok],
      Params = [''id'' \<mapsto> ident]\<rparr>"

definition bearer_request :: "string \<Rightarrow> string \<Rightarrow> request" where
  "bearer_request path tok =
     \<lparr>Path = path, Header = [''Authorization'' \<mapsto> ''Bearer '' @ tok], Params = Map.empty\<rparr>"

text \<open>
  Configurations with another secret; a configuration file that sets the secret to the
  empty string; an environment that offers a secret under several names.
\<close>

definition padded_config :: Config where
  "padded_config = defaultConfig\<lparr>Application := \<lparr>Secret = ''mysecret'' @ [CHR 0x00]\<rparr>\<rparr>"

definition other_config :: Config where
  "other_config = defaultConfig\<lparr>Application := \<lparr>Secret = ''othersecret''\<rparr>\<rparr>"

definition empty_secret_file :: "string \<Rightarrow> Config \<Rightarrow> Config \<times> string option" where
  "empty_secret_file file cfg = (cfg\<lparr>Application := \<lparr>Secret = []\<rparr>\<rparr>, None)"

definition secret_env :: environ where
  "secret_env = [''SECRET'' \<mapsto> ''s3cret'', ''JWT_SECRET'' \<mapsto> ''s3cret'',
                 ''APPLICATION_SECRET'' \<mapsto> ''s3cret'']"

section \<open>Lemmas on splitting, parsing and the filter\<close>

lemma Split_not_Nil: "Split s sep \<noteq> []"
  by (induction s) (auto split: list.splits)

lemma Split_no_sep: "sep \<notin> set s \<Longrightarrow> Split s sep = [s]"
  by (induction s) auto

lemma Split_append: "sep \<notin> set a \<Longrightarrow> Split (a @ sep # b) sep = a # Split b sep"
  by (induction a) (auto simp: Split_not_Nil split: list.splits)

lemma ParseUnverified_parts:
  "ParseUnverified L tok = Inr (t, h, c, s) \<Longrightarrow>
     Split tok (CHR ''.'') = [h, c, s] \<and> decode_header L h = Some (Some (alg t)) \<and>
     decode_claims L c = Some (Claims t) \<and> GetSigningMethod (alg t) = Some (Method t)"
  by (auto simp: ParseUnverified_def split: list.splits option.splits)

lemma GetSigningMethod_HMAC:
  "GetSigningMethod a = Some (SigningMethodHMAC b) \<longleftrightarrow> a \<in> set hmac_algs \<and> b = a"
  by (auto simp: GetSigningMethod_def)

lemma ParseWithClaims_Inr:
  assumes "ParseWithClaims L tok (keyFunc cfg) now = Inr t"
  shows "verified L (Secret (Application cfg)) now tok = Some (Claims t) \<and> Valid t"
proof -
  from assms obtain t0 h c s where pu: "ParseUnverified L tok = Inr (t0, h, c, s)"
    by (auto simp: ParseWithClaims_def split: sum.splits)
  note parts = ParseUnverified_parts[OF pu]
  from assms pu obtain sg where sg: "DecodeSegment L s = Some sg"
    by (auto simp: ParseWithClaims_def split: option.splits)
  from assms pu sg obtain a where m: "Method t0 = SigningMethodHMAC a"
    by (cases "Method t0") (auto simp: ParseWithClaims_def keyFunc_def Let_def)
  with parts have a: "alg t0 \<in> set hmac_algs" "a = alg t0"
    by (auto simp: GetSigningMethod_HMAC)
  from assms pu sg m have v: "sg = hmac L a (Secret (Application cfg)) (h @ ''.'' @ c)"
     and val: "Validator_Validate (Claims t0) now = None"
     and t: "t = t0\<lparr>Signature := sg, Valid := True\<rparr>"
    by (auto simp: ParseWithClaims_def keyFunc_def Let_def split: if_splits option.splits)
  show ?thesis
    using parts sg a v val t by (simp add: verified_def token_parts_def)
qed

lemma ParseWithClaims_verified:
  assumes "verified L (Secret (Application cfg)) now tok = Some cl"
  shows "\<exists>t. ParseWithClaims L tok (keyFunc cfg) now = Inr t \<and> Claims t = cl \<and> Valid t"
proof -
  from assms obtain a sg input where tp: "token_parts L tok = Some (a, cl, sg, input)"
    and a: "a \<in> set hmac_algs" and sg: "sg = hmac L a (Secret (Application cfg)) input"
    and val: "Validator_Validate cl now = None"
    by (auto simp: verified_def split: option.splits if_splits)
  from tp obtain h c s where sp: "Split tok (CHR ''.'') = [h, c, s]"
    and dh: "decode_header L h = Some (Some a)" and dc: "decode_claims L c = Some cl"
    and ds: "DecodeSegment L s = Some sg" and inp: "input = h @ ''.'' @ c"
    by (auto simp: token_parts_def split: list.splits option.splits)
  from a have gm: "GetSigningMethod a = Some (SigningMethodHMAC a)"
    by (simp add: GetSigningMethod_HMAC)
  show ?thesis
    using sp dh dc ds inp gm sg val
    by (simp add: ParseWithClaims_def ParseUnverified_def keyFunc_def Let_def)
qed

lemma ParseWithClaims_unverified:
  assumes "verified L (Secret (Application cfg)) now tok = None"
  shows "\<exists>e. ParseWithClaims L tok (keyFunc cfg) now = Inl e"
proof (cases "ParseWithClaims L tok (keyFunc cfg) now")
  case (Inl e) then show ?thesis by blast
next
  case (Inr t)
  from ParseWithClaims_Inr[OF Inr] assms show ?thesis by simp
qed

lemma AuthMiddleware_public:
  "is_public (Path req) \<Longrightarrow> AuthMiddleware L cfg now req keys = (Next, keys)"
  by (simp add: AuthMiddleware_def is_public_def)

lemma bearer_token_Some:
  "bearer_token req = Some tok \<longleftrightarrow>
     (let parts = Split (GetHeader req ''Authorization'') (CHR '' '')
      in length parts = 2 \<and> parts ! 0 = ''Bearer'' \<and> parts ! 1 = tok)"
  by (auto simp: bearer_token_def Let_def split: list.splits)

lemma bearer_token_None:
  "bearer_token req = None \<longleftrightarrow>
     (let parts = Split (GetHeader req ''Authorization'') (CHR '' '')
      in length parts \<noteq> 2 \<or> parts ! 0 \<noteq> ''Bearer'')"
  by (auto simp: bearer_token_def Let_def split: list.splits)

lemma AuthMiddleware_no_bearer:
  assumes "\<not> is_public (Path req)" "bearer_token req = None"
  shows "\<exists>msg. AuthMiddleware L cfg now req keys = (Abort 401 msg, keys)"
  using assms by (auto simp: AuthMiddleware_def is_public_def Let_def bearer_token_None)

lemma AuthMiddleware_bearer:
  assumes "\<not> is_public (Path req)" "bearer_token req = Some tok"
  shows "AuthMiddleware L cfg now req keys =
     (case ParseWithClaims L tok (keyFunc cfg) now of
        Inl err \<Rightarrow>
          (if Is err ErrTokenExpired then (Abort 401 ''Token has expired'', keys)
           else if Is err ErrTokenMalformed then (Abort 401 ''Malformed token'', keys)
           else if Is err ErrTokenSignatureInvalid then (Abort 401 ''Invalid token signature'', keys)
           else (Abort 401 (''Invalid token: '' @ Error err), keys))
      | Inr token \<Rightarrow>
          if \<not> Valid token then (Abort 401 ''Invalid token'', keys)
          else (Next, with_identity keys (Claims token)))"
proof -
  from assms(2) have ne: "GetHeader req ''Authorization'' \<noteq> []"
    by (auto simp: bearer_token_def)
  show ?thesis
    using assms ne
    unfolding with_identity_def
    by (simp add: AuthMiddleware_def is_public_def Let_def bearer_token_Some)
qed

lemma AuthMiddleware_rejected:
  assumes "\<not> is_public (Path req)" "bearer_token req = Some tok"
    "verified L (Secret (Application cfg)) now tok = None"
  shows "\<exists>msg. AuthMiddleware L cfg now req keys = (Abort 401 msg, keys)"
proof -
  from ParseWithClaims_unverified[OF assms(3)] obtain e
    where "ParseWithClaims L tok (keyFunc cfg) now = Inl e" by blast
  then show ?thesis by (simp add: AuthMiddleware_bearer[OF assms(1,2)])
qed

lemma AuthMiddleware_accepted:
  assumes "\<not> is_public (Path req)" "bearer_token req = Some tok"
    "verified L (Secret (Application cfg)) now tok = Some cl"
  shows "AuthMiddleware L cfg now req keys = (Next, with_identity keys cl)"
proof -
  from ParseWithClaims_verified[OF assms(3)] obtain t
    where "ParseWithClaims L tok (keyFunc cfg) now = Inr t" "Claims t = cl" "Valid t" by blast
  then show ?thesis by (simp add: AuthMiddleware_bearer[OF assms(1,2)])
qed

section \<open>The instance evaluated\<close>

lemma plain_parts:
  "token_parts plain_lib ''HS256.amy.75'' = Some (''HS256'', amy, ''75'', ''HS256.amy'')"
  by code_simp
lemma plain_hmac: "hmac plain_lib ''HS256'' ''mysecret'' ''HS256.amy'' = ''75''"
  by code_simp
lemma amy_valid: "Validator_Validate amy 1700000000000000000 = None"
  by code_simp
lemma amy_expired: "Validator_Validate amy 1700086400000000000 \<noteq> None"
  by code_simp
lemma amy_verified: "verified plain_lib ''mysecret'' 1700000000000000000 ''HS256.amy.75'' = Some amy"
  by (simp add: verified_def plain_parts plain_hmac amy_valid hmac_algs_def)
lemma amy_bearer: "bearer_token (bearer_request ''/api/users/7'' ''HS256.amy.75'') = Some ''HS256.amy.75''"
  by code_simp
lemma users_not_public: "\<not> is_public ''/api/users/7''"
  by code_simp
lemma amy_unverified_at_expiry: "verified plain_lib ''mysecret'' 1700086400000000000 ''HS256.amy.75'' = None"
  using amy_expired by (simp add: verified_def plain_parts plain_hmac hmac_algs_def)
lemma default_secret: "Secret (Application defaultConfig) = ''mysecret''"
  by (simp add: defaultConfig_def)

section \<open>The authorization gates: properties\<close>

text \<open>
  C1. Under \<open>CanModifyUser\<close>, with a route id that parses to \<open>t\<close>: no \<open>userID\<close> in the
  context gives 401; with an identity in the context the request passes exactly when the
  role is teacher or the subject id is \<open>t\<close>, and is answered 403 otherwise.
\<close>

theorem CanModifyUser_self_or_teacher:
  assumes "ParseUint (Param req ''id'') 32 = Inr t"
  shows "(keys ''userID'' = None \<longrightarrow>
            CanModifyUser req keys = Abort 401 ''Authentication required'')
       \<and> (identity keys uid role \<longrightarrow>
            (CanModifyUser req keys = Next) = (role = ''teacher'' \<or> uid = t))
       \<and> (identity keys uid role \<and> \<not> (role = ''teacher'' \<or> uid = t) \<longrightarrow>
            CanModifyUser req keys = Abort 403 ''You can only modify your own profile'')"
  using assms
  by (auto simp: CanModifyUser_def identity_def StatusUnauthorized_def StatusForbidden_def)

theorem CanModifyUser_self_or_teacher_witness:
  "ParseUint (Param (user_request ''7'') ''id'') 32 = Inr 7
   \<and> CanModifyUser (user_request ''7'') Map.empty = Abort 401 ''Authentication required''
   \<and> CanModifyUser (user_request ''7'') [''userID'' \<mapsto> Uint 7, ''role'' \<mapsto> Str ''student''] = Next
   \<and> CanModifyUser (user_request ''7'') [''userID'' \<mapsto> Uint 8, ''role'' \<mapsto> Str ''student'']
       = Abort 403 ''You can only modify your own profile''
   \<and> CanModifyUser (user_request ''7'') [''userID'' \<mapsto> Uint 8, ''role'' \<mapsto> Str ''teacher''] = Next"
proof -
  have p: "ParseUint (Param (user_request ''7'') ''id'') 32 = Inr 7"
    by (simp add: user_request_def Param_def ParseUint_def is_digit_def digit_val_def)
  have i1: "identity [''userID'' \<mapsto> Uint 7, ''role'' \<mapsto> Str ''student''] 7 ''student''"
    by (simp add: identity_def)
  have i2: "identity [''userID'' \<mapsto> Uint 8, ''role'' \<mapsto> Str ''student''] 8 ''student''"
    by (simp add: identity_def)
  have i3: "identity [''userID'' \<mapsto> Uint 8, ''role'' \<mapsto> Str ''teacher''] 8 ''teacher''"
    by (simp add: identity_def)
  have a: "CanModifyUser (user_request ''7'') Map.empty = Abort 401 ''Authentication required''"
    using CanModifyUser_self_or_teacher[OF p, of Map.empty] by simp
  have b: "CanModifyUser (user_request ''7'') [''userID'' \<mapsto> Uint 7, ''role'' \<mapsto> Str ''student''] = Next"
    using CanModifyUser_self_or_teacher[OF p, of _ 7 "''student''"] i1 by simp
  have c: "CanModifyUser (user_request ''7'') [''userID'' \<mapsto> Uint 8, ''role'' \<mapsto> Str ''student'']
       = Abort 403 ''You can only modify your own profile''"
    using CanModifyUser_self_or_teacher[OF p, of _ 8 "''student''"] i2 by simp
  have d: "CanModifyUser (user_request ''7'') [''userID'' \<mapsto> Uint 8, ''role'' \<mapsto> Str ''teacher''] = Next"
    using CanModifyUser_self_or_teacher[OF p, of _ 8 "''teacher''"] i3 by simp
  from p a b c d show ?thesis by blast
qed

text \<open>
  \<open>CanModifyUser\<close> answers a route id that does not parse before it reads the context.
\<close>

lemma CanModifyUser_unparsable:
  assumes "ParseUint (Param req ''id'') 32 = Inl e"
  shows "CanModifyUser req keys = Abort 400 ''Invalid user ID''"
  using assms by (simp add: CanModifyUser_def StatusBadRequest_def)

text \<open>
  C10. With an identity whose role is any string other than teacher, \<open>TeacherRequired\<close>
  answers 403 and \<open>CanModifyUser\<close> passes the request exactly when the subject id is the
  target id. The root user that \<open>InitDB\<close> creates has the role admin, which is such a role.
\<close>

theorem only_teacher_role_grants:
  assumes "identity keys uid role" and "role \<noteq> ''teacher''"
  shows "TeacherRequired req keys = Abort 403 ''Teacher privileges required''
       \<and> (\<forall>t. ParseUint (Param req ''id'') 32 = Inr t \<longrightarrow>
              (CanModifyUser req keys = Next) = (uid = t))
       \<and> User_Role (rootUser hashedPassword) = ''admin''"
  using assms
  by (auto simp: TeacherRequired_def CanModifyUser_def identity_def StatusForbidden_def
        rootUser_def)

theorem only_teacher_role_grants_witness:
  "identity [''userID'' \<mapsto> Uint 1, ''role'' \<mapsto> Str (User_Role (rootUser ''h''))] 1
      (User_Role (rootUser ''h''))
   \<and> User_Role (rootUser ''h'') \<noteq> ''teacher''
   \<and> TeacherRequired (user_request ''7'')
        [''userID'' \<mapsto> Uint 1, ''role'' \<mapsto> Str (User_Role (rootUser ''h''))]
      = Abort 403 ''Teacher privileges required''
   \<and> CanModifyUser (user_request ''7'')
        [''userID'' \<mapsto> Uint 1, ''role'' \<mapsto> Str (User_Role (rootUser ''h''))] \<noteq> Next
   \<and> CanModifyUser (user_request ''1'')
        [''userID'' \<mapsto> Uint 1, ''role'' \<mapsto> Str (User_Role (rootUser ''h''))] = Next"
proof -
  let ?K = "[''userID'' \<mapsto> Uint 1, ''role'' \<mapsto> Str (User_Role (rootUser ''h''))]"
  have i: "identity ?K 1 (User_Role (rootUser ''h''))" by (simp add: identity_def)
  have r: "User_Role (rootUser ''h'') \<noteq> ''teacher''" by (simp add: rootUser_def)
  have p7: "ParseUint (Param (user_request ''7'') ''id'') 32 = Inr 7"
    by (simp add: user_request_def Param_def ParseUint_def is_digit_def digit_val_def)
  have p1: "ParseUint (Param (user_request ''1'') ''id'') 32 = Inr 1"
    by (simp add: user_request_def Param_def ParseUint_def is_digit_def digit_val_def)
  note th7 = only_teacher_role_grants[OF i r, of "user_request ''7''" "''h''"]
  note th1 = only_teacher_role_grants[OF i r, of "user_request ''1''" "''h''"]
  from th7 have a: "TeacherRequired (user_request ''7'') ?K = Abort 403 ''Teacher privileges required''"
    by blast
  from th7[THEN conjunct2, THEN conjunct1] p7
  have b: "CanModifyUser (user_request ''7'') ?K \<noteq> Next" by simp
  from th1[THEN conjunct2, THEN conjunct1] p1
  have c: "CanModifyUser (user_request ''1'') ?K = Next" by simp
  from i r a b c show ?thesis by blast
qed

section \<open>The authentication filter: properties\<close>



text \<open>The prefix match is on the bytes of the path: the same path in upper case is not public.\<close>

lemma public_prefix_is_case_sensitive:
  "AuthMiddleware L cfg now
     \<lparr>Path = ''/API/auth/login'', Header = Map.empty, Params = Map.empty\<rparr> keys
   = (Abort 401 ''Authorization header is required'', keys)"
proof -
  have "\<not> list_ex (\<lambda>p. HasPrefix ''/API/auth/login'' p) publicPaths" by code_simp
  then show ?thesis by (simp add: AuthMiddleware_def GetHeader_def)
qed

text \<open>
  C2. The filter changes the context only by writing the identity of a bearer token that
  verifies under the configured secret at the time of the request: a public path passes
  with the context unchanged, every outcome other than \<open>Next\<close> leaves the context
  unchanged, a request without a bearer token that verifies is answered 401, and a context
  that differs from the one the filter was given holds the claims of the verified token.
\<close>

theorem identity_only_if_verified:
  "(is_public (Path req) \<longrightarrow> AuthMiddleware L cfg now req keys = (Next, keys))
   \<and> (fst (AuthMiddleware L cfg now req keys) \<noteq> Next \<longrightarrow>
        snd (AuthMiddleware L cfg now req keys) = keys)
   \<and> (\<not> is_public (Path req) \<and>
        (case bearer_token req of
           None \<Rightarrow> None
         | Some tok \<Rightarrow> verified L (Secret (Application cfg)) now tok) = None \<longrightarrow>
        (\<exists>msg. AuthMiddleware L cfg now req keys = (Abort 401 msg, keys)))
   \<and> (\<forall>tok cl. \<not> is_public (Path req) \<and> bearer_token req = Some tok \<and>
          verified L (Secret (Application cfg)) now tok = Some cl \<longrightarrow>
          AuthMiddleware L cfg now req keys = (Next, with_identity keys cl))
   \<and> (snd (AuthMiddleware L cfg now req keys) \<noteq> keys \<longrightarrow>
        (\<exists>tok cl. \<not> is_public (Path req) \<and> bearer_token req = Some tok \<and>
           verified L (Secret (Application cfg)) now tok = Some cl \<and>
           AuthMiddleware L cfg now req keys = (Next, with_identity keys cl)))"
proof (cases "is_public (Path req)")
  case True
  then show ?thesis by (simp add: AuthMiddleware_public)
next
  case np: False
  show ?thesis
  proof (cases "bearer_token req")
    case None
    with np AuthMiddleware_no_bearer[OF np None, of L cfg now keys] show ?thesis by auto
  next
    case (Some tok)
    show ?thesis
    proof (cases "verified L (Secret (Application cfg)) now tok")
      case None
      with np Some AuthMiddleware_rejected[OF np Some None, of keys] show ?thesis by auto
    next
      case (Some cl)
      with np \<open>bearer_token req = Some tok\<close>
        AuthMiddleware_accepted[OF np \<open>bearer_token req = Some tok\<close> Some, of keys]
      show ?thesis by auto
    qed
  qed
qed

theorem identity_only_if_verified_witness:
  "\<not> is_public (Path (bearer_request ''/api/users/7'' ''HS256.amy.75''))
   \<and> bearer_token (bearer_request ''/api/users/7'' ''HS256.amy.75'') = Some ''HS256.amy.75''
   \<and> verified plain_lib (Secret (Application defaultConfig)) 1700000000000000000 ''HS256.amy.75''
       = Some amy
   \<and> AuthMiddleware plain_lib defaultConfig 1700000000000000000
        (bearer_request ''/api/users/7'' ''HS256.amy.75'') Map.empty
       = (Next, with_identity Map.empty amy)
   \<and> verified plain_lib (Secret (Application defaultConfig)) 1700086400000000000 ''HS256.amy.75''
       = None
   \<and> (\<exists>msg. AuthMiddleware plain_lib defaultConfig 1700086400000000000
               (bearer_request ''/api/users/7'' ''HS256.amy.75'') Map.empty
             = (Abort 401 msg, Map.empty))"
proof -
  let ?req = "bearer_request ''/api/users/7'' ''HS256.amy.75''"
  have np: "\<not> is_public (Path ?req)" using users_not_public by (simp add: bearer_request_def)
  note bt = amy_bearer
  have v1: "verified plain_lib (Secret (Application defaultConfig)) 1700000000000000000
              ''HS256.amy.75'' = Some amy" using amy_verified by (simp add: default_secret)
  have v2: "verified plain_lib (Secret (Application defaultConfig)) 1700086400000000000
              ''HS256.amy.75'' = None" using amy_unverified_at_expiry by (simp add: default_secret)
  note at_issue = identity_only_if_verified[of ?req plain_lib defaultConfig 1700000000000000000 Map.empty]
  note at_expiry = identity_only_if_verified[of ?req plain_lib defaultConfig 1700086400000000000 Map.empty]
  from at_expiry np bt v2 have rej: "\<exists>msg. AuthMiddleware plain_lib defaultConfig 1700086400000000000
               ?req Map.empty = (Abort 401 msg, Map.empty)" by simp
  from at_issue np bt v1 have acc: "AuthMiddleware plain_lib defaultConfig 1700000000000000000 ?req Map.empty
       = (Next, with_identity Map.empty amy)" by blast
  from np bt v1 acc v2 rej show ?thesis by blast
qed

text \<open>
  In the chain of the owner routes the filter runs before \<open>CanModifyUser\<close>: a route id
  that does not parse is answered 400 when the filter passes the request, and the filter's
  own answer stands when it does not.
\<close>

lemma chain_unparsable_id:
  assumes "ParseUint (Param req ''id'') 32 = Inl e"
  shows "fst (user_owner_chain L cfg now req keys) =
           (if fst (AuthMiddleware L cfg now req keys) = Next
            then Abort 400 ''Invalid user ID''
            else fst (AuthMiddleware L cfg now req keys))"
  using assms
  by (cases "AuthMiddleware L cfg now req keys"; cases "fst (AuthMiddleware L cfg now req keys)")
     (simp_all add: user_owner_chain_def CanModifyUser_def StatusBadRequest_def)

lemma chain_unparsable_id_without_token:
  "user_owner_chain L cfg now (user_request ''abc'') Map.empty
     = (Abort 401 ''Authorization header is required'', Map.empty)"
proof -
  have "\<not> list_ex (\<lambda>p. HasPrefix ''/api/users/abc'' p) publicPaths" by code_simp
  then show ?thesis
    by (simp add: user_owner_chain_def AuthMiddleware_def GetHeader_def user_request_def)
qed

lemma AuthMiddleware_answers:
  assumes "\<not> is_public (Path req)"
  shows "fst (AuthMiddleware L cfg now req keys) = Next
         \<or> (\<exists>msg. AuthMiddleware L cfg now req keys = (Abort 401 msg, keys))"
proof (cases "bearer_token req")
  case None
  with AuthMiddleware_no_bearer[OF assms None, of L cfg now keys] show ?thesis by blast
next
  case (Some tok)
  show ?thesis
  proof (cases "verified L (Secret (Application cfg)) now tok")
    case None
    with AuthMiddleware_rejected[OF assms Some None, of keys] show ?thesis by blast
  next
    case (Some cl)
    from AuthMiddleware_accepted[OF assms \<open>bearer_token req = Some tok\<close> Some, of keys]
    show ?thesis by simp
  qed
qed

lemma chain_filter_rejects:
  assumes "fst (AuthMiddleware L cfg now req keys) \<noteq> Next"
  shows "user_owner_chain L cfg now req keys = AuthMiddleware L cfg now req keys"
  using assms
  by (cases "AuthMiddleware L cfg now req keys"; cases "fst (AuthMiddleware L cfg now req keys)")
     (simp_all add: user_owner_chain_def)

text \<open>
  C8, as amended. On the owner routes a route id that does not parse is answered 400 once
  the filter has passed the request: \<open>CanModifyUser\<close> decides it before it reads the
  context, so before its own 401 and 403. The filter runs ahead of the gate: when it does
  not pass the request its answer is the answer of the chain, and off the public paths the
  chain answers either this 400 or the filter's 401, never 403.
\<close>

theorem unparsable_id_after_filter:
  assumes "ParseUint (Param req ''id'') 32 = Inl e"
  shows "CanModifyUser req keys = Abort 400 ''Invalid user ID''
       \<and> (fst (AuthMiddleware L cfg now req keys) = Next \<longrightarrow>
            fst (user_owner_chain L cfg now req keys) = Abort 400 ''Invalid user ID'')
       \<and> (fst (AuthMiddleware L cfg now req keys) \<noteq> Next \<longrightarrow>
            user_owner_chain L cfg now req keys = AuthMiddleware L cfg now req keys)
       \<and> (\<not> is_public (Path req) \<longrightarrow>
            fst (user_owner_chain L cfg now req keys) = Abort 400 ''Invalid user ID''
            \<or> (\<exists>msg. user_owner_chain L cfg now req keys = (Abort 401 msg, keys)))"
proof -
  have a: "CanModifyUser req keys = Abort 400 ''Invalid user ID''"
    using assms by (rule CanModifyUser_unparsable)
  have b: "fst (user_owner_chain L cfg now req keys) = Abort 400 ''Invalid user ID''"
    if "fst (AuthMiddleware L cfg now req keys) = Next"
    using that chain_unparsable_id[OF assms, of L cfg now keys] by simp
  have c: "user_owner_chain L cfg now req keys = AuthMiddleware L cfg now req keys"
    if "fst (AuthMiddleware L cfg now req keys) \<noteq> Next"
    using that by (rule chain_filter_rejects)
  have d: "fst (user_owner_chain L cfg now req keys) = Abort 400 ''Invalid user ID''
            \<or> (\<exists>msg. user_owner_chain L cfg now req keys = (Abort 401 msg, keys))"
    if np: "\<not> is_public (Path req)"
  proof (cases "fst (AuthMiddleware L cfg now req keys) = Next")
    case True
    with b show ?thesis by simp
  next
    case False
    with AuthMiddleware_answers[OF np, of L cfg now keys] c show ?thesis by auto
  qed
  from a b c d show ?thesis by blast
qed

lemma abc_unparsable: "ParseUint (Param (owner_request ''abc'' tok) ''id'') 32 = Inl ErrSyntax"
  by (simp add: owner_request_def Param_def ParseUint_def is_digit_def)

lemma owner_not_public: "\<not> is_public (Path (owner_request ''abc'' tok))"
proof -
  have "\<not> is_public ''/api/users/abc''" by code_simp
  then show ?thesis by (simp add: owner_request_def)
qed

lemma owner_bearer: "bearer_token (owner_request ''abc'' ''HS256.amy.75'') = Some ''HS256.amy.75''"
  by code_simp

theorem unparsable_id_after_filter_witness:
  "ParseUint (Param (owner_request ''abc'' ''HS256.amy.75'') ''id'') 32 = Inl ErrSyntax
   \<and> \<not> is_public (Path (owner_request ''abc'' ''HS256.amy.75''))
   \<and> fst (AuthMiddleware plain_lib defaultConfig 1700000000000000000
             (owner_request ''abc'' ''HS256.amy.75'') Map.empty) = Next
   \<and> fst (user_owner_chain plain_lib defaultConfig 1700000000000000000
             (owner_request ''abc'' ''HS256.amy.75'') Map.empty) = Abort 400 ''Invalid user ID''
   \<and> fst (AuthMiddleware plain_lib defaultConfig 1700086400000000000
             (owner_request ''abc'' ''HS256.amy.75'') Map.empty) \<noteq> Next
   \<and> user_owner_chain plain_lib defaultConfig 1700086400000000000
        (owner_request ''abc'' ''HS256.amy.75'') Map.empty
      = AuthMiddleware plain_lib defaultConfig 1700086400000000000
          (owner_request ''abc'' ''HS256.amy.75'') Map.empty"
proof -
  let ?req = "owner_request ''abc'' ''HS256.amy.75''"
  note p = abc_unparsable[of "''HS256.amy.75''"]
  note np = owner_not_public[of "''HS256.amy.75''"]
  have v1: "verified plain_lib (Secret (Application defaultConfig)) 1700000000000000000
              ''HS256.amy.75'' = Some amy" using amy_verified by (simp add: default_secret)
  have v2: "verified plain_lib (Secret (Application defaultConfig)) 1700086400000000000
              ''HS256.amy.75'' = None" using amy_unverified_at_expiry by (simp add: default_secret)
  from AuthMiddleware_accepted[OF np owner_bearer v1, of Map.empty]
  have pass: "fst (AuthMiddleware plain_lib defaultConfig 1700000000000000000 ?req Map.empty) = Next"
    by simp
  from AuthMiddleware_rejected[OF np owner_bearer v2, of Map.empty]
  have rej: "fst (AuthMiddleware plain_lib defaultConfig 1700086400000000000 ?req Map.empty) \<noteq> Next"
    by auto
  note at_issue = unparsable_id_after_filter[OF p, of Map.empty plain_lib defaultConfig
      1700000000000000000]
  note at_expiry = unparsable_id_after_filter[OF p, of Map.empty plain_lib defaultConfig
      1700086400000000000]
  from at_issue pass
  have a: "fst (user_owner_chain plain_lib defaultConfig 1700000000000000000 ?req Map.empty)
             = Abort 400 ''Invalid user ID''" by blast
  from at_expiry rej
  have b: "user_owner_chain plain_lib defaultConfig 1700086400000000000 ?req Map.empty
      = AuthMiddleware plain_lib defaultConfig 1700086400000000000 ?req Map.empty" by blast
  from p np pass a rej b show ?thesis by blast
qed

text \<open>
  C8 as stated fails: the 400 is not decided before every authentication check. A request
  to \<open>/api/users/abc\<close> without an \<open>Authorization\<close> header is answered 401 by the
  filter, and the route id is never parsed.
\<close>

theorem unparsable_id_without_token:
  "ParseUint (Param (user_request ''abc'') ''id'') 32 = Inl ErrSyntax
   \<and> Header (user_request ''abc'') ''Authorization'' = None
   \<and> user_owner_chain plain_lib defaultConfig 1700000000000000000 (user_request ''abc'') Map.empty
       = (Abort 401 ''Authorization header is required'', Map.empty)"
proof -
  have p: "ParseUint (Param (user_request ''abc'') ''id'') 32 = Inl ErrSyntax"
    by (simp add: user_request_def Param_def ParseUint_def is_digit_def)
  have h: "Header (user_request ''abc'') ''Authorization'' = None"
    by (simp add: user_request_def)
  from p h chain_unparsable_id_without_token[of plain_lib defaultConfig 1700000000000000000]
  show ?thesis by blast
qed

section \<open>Token verification: properties\<close>

lemma declared_alg_parts:
  "token_parts L tok = Some (a, cl, sg, input) \<Longrightarrow> declared_alg L tok = Some a"
  by (auto simp: token_parts_def declared_alg_def split: list.splits option.splits)

lemma not_hmac_unverified:
  assumes "declared_alg L tok = Some a" and "a \<notin> set hmac_algs"
  shows "verified L key now tok = None"
proof (cases "token_parts L tok")
  case None
  then show ?thesis by (simp add: verified_def)
next
  case (Some q)
  obtain a' cl sg input where q: "q = (a', cl, sg, input)" by (cases q)
  with Some declared_alg_parts[of L tok a' cl sg input] assms have "a' \<notin> set hmac_algs" by simp
  with Some q show ?thesis by (simp add: verified_def)
qed

text \<open>
  C5. A token string whose header declares an algorithm that is not one of the HMAC methods
  is rejected by \<open>ParseWithClaims\<close> under the filter's key function, whatever its
  claims and signature are; a request that carries it leaves the filter with the context
  unchanged, and is answered 401 unless its path is public.
\<close>

theorem non_hmac_algorithm_rejected:
  assumes "declared_alg L tok = Some a" and "a \<notin> set hmac_algs"
  shows "(\<exists>e. ParseWithClaims L tok (keyFunc cfg) now = Inl e)
       \<and> (bearer_token req = Some tok \<longrightarrow>
            snd (AuthMiddleware L cfg now req keys) = keys
            \<and> (\<not> is_public (Path req) \<longrightarrow>
                 (\<exists>msg. AuthMiddleware L cfg now req keys = (Abort 401 msg, keys))))"
proof -
  have v: "verified L (Secret (Application cfg)) now tok = None"
    using assms by (rule not_hmac_unverified)
  have a: "\<exists>e. ParseWithClaims L tok (keyFunc cfg) now = Inl e"
    using v by (rule ParseWithClaims_unverified)
  have b: "snd (AuthMiddleware L cfg now req keys) = keys
            \<and> (\<not> is_public (Path req) \<longrightarrow>
                 (\<exists>msg. AuthMiddleware L cfg now req keys = (Abort 401 msg, keys)))"
    if bt: "bearer_token req = Some tok"
  proof (cases "is_public (Path req)")
    case True
    then show ?thesis by (simp add: AuthMiddleware_public)
  next
    case False
    from AuthMiddleware_rejected[OF False bt v, of keys] show ?thesis by auto
  qed
  from a b show ?thesis by blast
qed

lemma rs256_alg: "declared_alg plain_lib ''RS256.amy.75'' = Some ''RS256''"
  by code_simp
lemma rs256_not_hmac: "''RS256'' \<notin> set hmac_algs"
  by (simp add: hmac_algs_def)
lemma rs256_bearer:
  "bearer_token (bearer_request ''/api/users/7'' ''RS256.amy.75'') = Some ''RS256.amy.75''"
  by code_simp
lemma es256_bearer:
  "bearer_token (bearer_request ''/api/users/7'' ''ES256.amy.75'') = Some ''ES256.amy.75''"
  by code_simp
lemma users_path: "\<not> is_public (Path (bearer_request ''/api/users/7'' tok))"
  using users_not_public by (simp add: bearer_request_def)

lemma none_alg: "declared_alg plain_lib ''none.amy.'' = Some ''none''"
  by code_simp
lemma none_not_hmac: "''none'' \<notin> set hmac_algs"
  by (simp add: hmac_algs_def)
lemma none_bearer:
  "bearer_token (bearer_request ''/api/users/7'' ''none.amy.'') = Some ''none.amy.''"
  by code_simp

theorem non_hmac_algorithm_rejected_witness:
  "declared_alg plain_lib ''RS256.amy.75'' = Some ''RS256'' \<and> ''RS256'' \<notin> set hmac_algs
   \<and> bearer_token (bearer_request ''/api/users/7'' ''RS256.amy.75'') = Some ''RS256.amy.75''
   \<and> \<not> is_public (Path (bearer_request ''/api/users/7'' ''RS256.amy.75''))
   \<and> (\<exists>e. ParseWithClaims plain_lib ''RS256.amy.75'' (keyFunc defaultConfig) 1700000000000000000
            = Inl e)
   \<and> (\<exists>msg. AuthMiddleware plain_lib defaultConfig 1700000000000000000
               (bearer_request ''/api/users/7'' ''RS256.amy.75'') Map.empty
             = (Abort 401 msg, Map.empty))
   \<and> declared_alg plain_lib ''none.amy.'' = Some ''none'' \<and> ''none'' \<notin> set hmac_algs
   \<and> bearer_token (bearer_request ''/api/users/7'' ''none.amy.'') = Some ''none.amy.''
   \<and> (\<exists>msg. AuthMiddleware plain_lib defaultConfig 1700000000000000000
               (bearer_request ''/api/users/7'' ''none.amy.'') Map.empty
             = (Abort 401 msg, Map.empty))"
proof -
  note rs = non_hmac_algorithm_rejected[OF rs256_alg rs256_not_hmac,
      of defaultConfig 1700000000000000000 "bearer_request ''/api/users/7'' ''RS256.amy.75''"
         Map.empty]
  note no = non_hmac_algorithm_rejected[OF none_alg none_not_hmac,
      of defaultConfig 1700000000000000000 "bearer_request ''/api/users/7'' ''none.amy.''"
         Map.empty]
  from rs rs256_bearer users_path
  have a: "(\<exists>e. ParseWithClaims plain_lib ''RS256.amy.75'' (keyFunc defaultConfig)
                   1700000000000000000 = Inl e)
         \<and> (\<exists>msg. AuthMiddleware plain_lib defaultConfig 1700000000000000000
               (bearer_request ''/api/users/7'' ''RS256.amy.75'') Map.empty
             = (Abort 401 msg, Map.empty))" by blast
  from no none_bearer users_path
  have b: "\<exists>msg. AuthMiddleware plain_lib defaultConfig 1700000000000000000
               (bearer_request ''/api/users/7'' ''none.amy.'') Map.empty
             = (Abort 401 msg, Map.empty)" by blast
  from a b rs256_alg rs256_not_hmac rs256_bearer users_path none_alg none_not_hmac none_bearer
  show ?thesis by blast
qed

lemma rs256_parse:
  "ParseWithClaims plain_lib ''RS256.amy.75'' (keyFunc cfg) now =
     Inl (newError ''error while executing keyfunc'' ErrTokenUnverifiable
            [Errorf ''unexpected signing method: RS256''])"
proof -
  have s: "Split ''RS256.amy.75'' (CHR ''.'') = [''RS256'', ''amy'', ''75'']" by code_simp
  have h: "decode_header plain_lib ''RS256'' = Some (Some ''RS256'')" by code_simp
  have c: "decode_claims plain_lib ''amy'' = Some amy" by code_simp
  have g: "GetSigningMethod ''RS256'' = Some (SigningMethodOther ''RS256'')" by code_simp
  have d: "DecodeSegment plain_lib ''75'' = Some ''75''" by code_simp
  show ?thesis
    by (simp add: ParseWithClaims_def ParseUnverified_def s h c g d keyFunc_def)
qed

lemma es256_parse:
  "ParseWithClaims plain_lib ''ES256.amy.75'' (keyFunc cfg) now =
     Inl (newError ''error while executing keyfunc'' ErrTokenUnverifiable
            [Errorf ''unexpected signing method: ES256''])"
proof -
  have s: "Split ''ES256.amy.75'' (CHR ''.'') = [''ES256'', ''amy'', ''75'']" by code_simp
  have h: "decode_header plain_lib ''ES256'' = Some (Some ''ES256'')" by code_simp
  have c: "decode_claims plain_lib ''amy'' = Some amy" by code_simp
  have g: "GetSigningMethod ''ES256'' = Some (SigningMethodOther ''ES256'')" by code_simp
  have d: "DecodeSegment plain_lib ''75'' = Some ''75''" by code_simp
  show ?thesis
    by (simp add: ParseWithClaims_def ParseUnverified_def s h c g d keyFunc_def)
qed

lemma keyfunc_error_text:
  "Error (newError ''error while executing keyfunc'' ErrTokenUnverifiable [Errorf msg])
     = ''token is unverifiable: error while executing keyfunc: '' @ msg"
  by (simp add: newError_def Errorf_def)

lemma keyfunc_error_kind:
  "Is (newError ''error while executing keyfunc'' ErrTokenUnverifiable [Errorf msg]) s
     \<longleftrightarrow> s = ErrTokenUnverifiable"
  by (auto simp: newError_def Errorf_def Is_def)

text \<open>
  C4, as amended. A token that fails verification is answered 401 with a body chosen by the
  category of the error: one of three fixed strings for an expired token, a malformed token
  and an invalid signature, and otherwise \<open>Invalid token:\<close> followed by the text of the
  codec's error.
\<close>

theorem token_failure_bodies:
  assumes "\<not> is_public (Path req)" and "bearer_token req = Some tok"
    and "ParseWithClaims L tok (keyFunc cfg) now = Inl err"
  shows "AuthMiddleware L cfg now req keys =
           (Abort 401
              (if Is err ErrTokenExpired then ''Token has expired''
               else if Is err ErrTokenMalformed then ''Malformed token''
               else if Is err ErrTokenSignatureInvalid then ''Invalid token signature''
               else ''Invalid token: '' @ Error err), keys)"
  using assms(3) by (simp add: AuthMiddleware_bearer[OF assms(1,2)])

theorem token_failure_bodies_witness:
  "\<not> is_public (Path (bearer_request ''/api/users/7'' ''HS256.amy.75''))
   \<and> bearer_token (bearer_request ''/api/users/7'' ''HS256.amy.75'') = Some ''HS256.amy.75''
   \<and> ParseWithClaims plain_lib ''HS256.amy.75'' (keyFunc defaultConfig) 1700086400000000000
        = Inl (newError [] ErrTokenInvalidClaims [joinErrors [the_sentinel ErrTokenExpired]])
   \<and> AuthMiddleware plain_lib defaultConfig 1700086400000000000
        (bearer_request ''/api/users/7'' ''HS256.amy.75'') Map.empty
        = (Abort 401 ''Token has expired'', Map.empty)"
proof -
  have s: "Split ''HS256.amy.75'' (CHR ''.'') = [''HS256'', ''amy'', ''75'']" by code_simp
  have h: "decode_header plain_lib ''HS256'' = Some (Some ''HS256'')" by code_simp
  have c: "decode_claims plain_lib ''amy'' = Some amy" by code_simp
  have g: "GetSigningMethod ''HS256'' = Some (SigningMethodHMAC ''HS256'')" by code_simp
  have d: "DecodeSegment plain_lib ''75'' = Some ''75''" by code_simp
  have v: "Validator_Validate amy 1700086400000000000
             = Some (joinErrors [the_sentinel ErrTokenExpired])"
    by (simp add: Validator_Validate_def amy_def)
  have p: "ParseWithClaims plain_lib ''HS256.amy.75'' (keyFunc defaultConfig) 1700086400000000000
        = Inl (newError [] ErrTokenInvalidClaims [joinErrors [the_sentinel ErrTokenExpired]])"
    by (simp add: ParseWithClaims_def ParseUnverified_def s h c g d keyFunc_def default_secret plain_hmac v)
  have i: "Is (newError [] ErrTokenInvalidClaims [joinErrors [the_sentinel ErrTokenExpired]])
             ErrTokenExpired"
    by (simp add: Is_def newError_def joinErrors_def the_sentinel_def)
  from token_failure_bodies[OF users_path amy_bearer p, of Map.empty] i
  have "AuthMiddleware plain_lib defaultConfig 1700086400000000000
        (bearer_request ''/api/users/7'' ''HS256.amy.75'') Map.empty
        = (Abort 401 ''Token has expired'', Map.empty)" by simp
  with users_path amy_bearer p show ?thesis by blast
qed

text \<open>
  C4 as stated fails: outside the three categories the body is not a fixed string. Two
  tokens that differ in the declared algorithm get two bodies, each holding the codec's
  error text with the key function's message in it.
\<close>

theorem error_body_embeds_codec_text:
  "AuthMiddleware plain_lib defaultConfig 1700000000000000000
     (bearer_request ''/api/users/7'' ''RS256.amy.75'') Map.empty
   = (Abort 401 ''Invalid token: token is unverifiable: error while executing keyfunc: unexpected signing method: RS256'',
      Map.empty)
   \<and> AuthMiddleware plain_lib defaultConfig 1700000000000000000
     (bearer_request ''/api/users/7'' ''ES256.amy.75'') Map.empty
   = (Abort 401 ''Invalid token: token is unverifiable: error while executing keyfunc: unexpected signing method: ES256'',
      Map.empty)"
  by (simp add: AuthMiddleware_bearer[OF users_path rs256_bearer]
        AuthMiddleware_bearer[OF users_path es256_bearer] rs256_parse es256_parse
        keyfunc_error_text keyfunc_error_kind)

section \<open>Issuing and verifying\<close>

lemma hmac_zero_padded_key:
  assumes "length key < BlockSize a"
  shows "hmac L a (key @ [CHR 0x00]) msg = hmac L a key msg"
proof -
  from assms have "BlockSize a - length key = Suc (BlockSize a - Suc (length key))" by simp
  then have "replicate (BlockSize a - length key) (CHR 0x00)
               = CHR 0x00 # replicate (BlockSize a - Suc (length key)) (CHR 0x00)"
    by (simp only: replicate_Suc)
  then have blk: "(key @ [CHR 0x00]) @ replicate (BlockSize a - length (key @ [CHR 0x00])) (CHR 0x00)
           = key @ replicate (BlockSize a - length key) (CHR 0x00)"
    by simp
  from assms have n1: "\<not> BlockSize a < length key"
    and n2: "\<not> BlockSize a < length (key @ [CHR 0x00])" by simp_all
  show ?thesis
    unfolding hmac_def Let_def if_not_P[OF n1] if_not_P[OF n2] blk ..
qed

lemma BlockSize_ge: "64 \<le> BlockSize a"
  by (simp add: BlockSize_def)

lemma verified_zero_padded_key:
  assumes "length key < 64"
  shows "verified L (key @ [CHR 0x00]) now tok = verified L key now tok"
proof -
  have "hmac L a (key @ [CHR 0x00]) msg = hmac L a key msg" for a msg
    using assms BlockSize_ge[of a] by (intro hmac_zero_padded_key) simp
  then show ?thesis by (simp add: verified_def split: option.splits)
qed

lemma Split_segments:
  assumes "url_safe h" "url_safe c" "url_safe s"
  shows "Split (h @ ''.'' @ c @ ''.'' @ s) (CHR ''.'') = [h, c, s]"
proof -
  from assms have "CHR ''.'' \<notin> set h" "CHR ''.'' \<notin> set c" "CHR ''.'' \<notin> set s"
    by (simp_all add: url_safe_def)
  then show ?thesis
    using Split_append[of "CHR ''.''" h "c @ ''.'' @ s"] Split_append[of "CHR ''.''" c s]
      Split_no_sep[of "CHR ''.''" s]
    by simp
qed

lemma Split_bearer:
  assumes "CHR '' '' \<notin> set tok"
  shows "Split (''Bearer '' @ tok) (CHR '' '') = [''Bearer'', tok]"
proof -
  have "Split (''Bearer'' @ CHR '' '' # tok) (CHR '' '') = ''Bearer'' # Split tok (CHR '' '')"
    by (rule Split_append) simp
  with Split_no_sep[OF assms] show ?thesis by simp
qed

lemma bearer_token_header:
  assumes "GetHeader req ''Authorization'' = ''Bearer '' @ tok" and "CHR '' '' \<notin> set tok"
  shows "bearer_token req = Some tok"
  using Split_bearer[OF assms(2)] assms(1) by (simp add: bearer_token_def)

lemma GenerateToken_eq:
  "GenerateToken L cfg now1 now2 uid email role =
     Inr (encode_header L ''HS256'' @ ''.'' @ encode_claims L (issued_claims now1 now2 uid email role)
          @ ''.'' @ EncodeSegment L (issued_signature L (Secret (Application cfg))
                                       (issued_claims now1 now2 uid email role)))"
  by (simp add: GenerateToken_def SignedString_def SigningString_def NewWithClaims_def
        SigningMethodHS256_def issued_claims_def issued_signature_def Let_def)

lemma issued_claims_valid:
  "now < NewNumericDate (now1 + 24 * Hour) \<Longrightarrow>
     Validator_Validate (issued_claims now1 now2 uid email role) now = None"
  by (simp add: Validator_Validate_def issued_claims_def)

text \<open>
  C3. For every identity and every secret, \<open>GenerateToken\<close> returns a token; at any time
  before the expiry it put into the token, that token verifies under the same secret to the
  claims issued, and the filter passes a request that carries it as its bearer token and
  writes exactly the issued user id, email and role into the context. The hypothesis on the
  primitives is that the three segments of this token are carried by the encodings.
\<close>

theorem generate_then_verify:
  assumes "carries L ''HS256'' (issued_claims now1 now2 uid email role)
             (issued_signature L (Secret (Application cfg)) (issued_claims now1 now2 uid email role))"
    and "now < NewNumericDate (now1 + 24 * Hour)"
  shows "\<exists>tok. GenerateToken L cfg now1 now2 uid email role = Inr tok
           \<and> verified L (Secret (Application cfg)) now tok
               = Some (issued_claims now1 now2 uid email role)
           \<and> (\<forall>req keys. \<not> is_public (Path req)
                  \<and> GetHeader req ''Authorization'' = ''Bearer '' @ tok \<longrightarrow>
                AuthMiddleware L cfg now req keys
                  = (Next, keys(''userID'' \<mapsto> Uint uid, ''email'' \<mapsto> Str email,
                               ''role'' \<mapsto> Str role)))"
proof -
  define cl where "cl = issued_claims now1 now2 uid email role"
  define sg where "sg = issued_signature L (Secret (Application cfg)) cl"
  define h where "h = encode_header L ''HS256''"
  define c where "c = encode_claims L cl"
  define s where "s = EncodeSegment L sg"
  define tok where "tok = h @ ''.'' @ c @ ''.'' @ s"
  from assms(1) have dh: "decode_header L h = Some (Some ''HS256'')"
    and dc: "decode_claims L c = Some cl" and ds: "DecodeSegment L s = Some sg"
    and uh: "url_safe h" and uc: "url_safe c" and us: "url_safe s"
    by (simp_all add: carries_def cl_def sg_def h_def c_def s_def)
  have gen: "GenerateToken L cfg now1 now2 uid email role = Inr tok"
    by (simp add: GenerateToken_eq tok_def h_def c_def s_def sg_def cl_def)
  have sp: "Split tok (CHR ''.'') = [h, c, s]"
    unfolding tok_def using uh uc us by (rule Split_segments)
  have tp: "token_parts L tok = Some (''HS256'', cl, sg, h @ ''.'' @ c)"
    by (simp add: token_parts_def sp dh dc ds)
  have sgeq: "sg = hmac L ''HS256'' (Secret (Application cfg)) (h @ ''.'' @ c)"
    by (simp add: sg_def issued_signature_def h_def c_def)
  have val: "Validator_Validate cl now = None"
    unfolding cl_def using assms(2) by (rule issued_claims_valid)
  have ver: "verified L (Secret (Application cfg)) now tok = Some cl"
    using sgeq val by (simp add: verified_def tp hmac_algs_def)
  have nospace: "CHR '' '' \<notin> set tok"
    using uh uc us by (simp add: tok_def url_safe_def)
  have acc: "AuthMiddleware L cfg now req keys
                  = (Next, keys(''userID'' \<mapsto> Uint uid, ''email'' \<mapsto> Str email,
                               ''role'' \<mapsto> Str role))"
    if np: "\<not> is_public (Path req)"
      and hd: "GetHeader req ''Authorization'' = ''Bearer '' @ tok" for req keys
  proof -
    have bt: "bearer_token req = Some tok" using hd nospace by (rule bearer_token_header)
    from AuthMiddleware_accepted[OF np bt ver, of keys]
    show ?thesis by (simp add: with_identity_def cl_def issued_claims_def)
  qed
  from gen ver acc show ?thesis unfolding cl_def by blast
qed

lemma amy_issued:
  "issued_claims 1700000000123456789 1700000000123456999 7 ''amy@example.com'' ''student'' = amy"
  by (simp add: issued_claims_def amy_def NewNumericDate_def Hour_def Second_def)

lemma amy_signature: "issued_signature plain_lib ''mysecret'' amy = ''75''"
proof -
  have "encode_header plain_lib ''HS256'' @ ''.'' @ encode_claims plain_lib amy = ''HS256.amy''"
    by code_simp
  then show ?thesis by (simp add: issued_signature_def plain_hmac)
qed

lemma amy_carried: "carries plain_lib ''HS256'' amy ''75''"
proof -
  have 1: "encode_header plain_lib ''HS256'' = ''HS256''" by code_simp
  have 2: "encode_claims plain_lib amy = ''amy''" by code_simp
  have 3: "EncodeSegment plain_lib ''75'' = ''75''" by code_simp
  have 4: "decode_header plain_lib ''HS256'' = Some (Some ''HS256'')" by code_simp
  have 5: "decode_claims plain_lib ''amy'' = Some amy" by code_simp
  have 6: "DecodeSegment plain_lib ''75'' = Some ''75''" by code_simp
  show ?thesis by (simp add: carries_def 1 2 3 4 5 6 url_safe_def)
qed

lemma amy_token:
  "GenerateToken plain_lib defaultConfig 1700000000123456789 1700000000123456999 7
     ''amy@example.com'' ''student'' = Inr ''HS256.amy.75''"
proof -
  have 1: "encode_header plain_lib ''HS256'' = ''HS256''" by code_simp
  have 2: "encode_claims plain_lib amy = ''amy''" by code_simp
  have 3: "EncodeSegment plain_lib ''75'' = ''75''" by code_simp
  show ?thesis by (simp add: GenerateToken_eq amy_issued default_secret amy_signature 1 2 3)
qed

lemma bearer_request_header:
  "GetHeader (bearer_request path tok) ''Authorization'' = ''Bearer '' @ tok"
  by (simp add: bearer_request_def GetHeader_def)

theorem generate_then_verify_witness:
  "carries plain_lib ''HS256''
     (issued_claims 1700000000123456789 1700000000123456999 7 ''amy@example.com'' ''student'')
     (issued_signature plain_lib (Secret (Application defaultConfig))
        (issued_claims 1700000000123456789 1700000000123456999 7 ''amy@example.com'' ''student''))
   \<and> (1700050000000000000::int) < NewNumericDate (1700000000123456789 + 24 * Hour)
   \<and> GenerateToken plain_lib defaultConfig 1700000000123456789 1700000000123456999 7
        ''amy@example.com'' ''student'' = Inr ''HS256.amy.75''
   \<and> AuthMiddleware plain_lib defaultConfig 1700050000000000000
        (bearer_request ''/api/users/7'' ''HS256.amy.75'') Map.empty
      = (Next, [''userID'' \<mapsto> Uint 7, ''email'' \<mapsto> Str ''amy@example.com'',
                ''role'' \<mapsto> Str ''student''])"
proof -
  have c: "carries plain_lib ''HS256''
     (issued_claims 1700000000123456789 1700000000123456999 7 ''amy@example.com'' ''student'')
     (issued_signature plain_lib (Secret (Application defaultConfig))
        (issued_claims 1700000000123456789 1700000000123456999 7 ''amy@example.com'' ''student''))"
    by (simp add: amy_issued default_secret amy_signature amy_carried)
  have t: "(1700050000000000000::int) < NewNumericDate (1700000000123456789 + 24 * Hour)"
    by (simp add: NewNumericDate_def Hour_def Second_def)
  from generate_then_verify[OF c t] obtain tok where
    g: "GenerateToken plain_lib defaultConfig 1700000000123456789 1700000000123456999 7
          ''amy@example.com'' ''student'' = Inr tok"
    and a: "\<forall>req keys. \<not> is_public (Path req)
                  \<and> GetHeader req ''Authorization'' = ''Bearer '' @ tok \<longrightarrow>
                AuthMiddleware plain_lib defaultConfig 1700050000000000000 req keys
                  = (Next, keys(''userID'' \<mapsto> Uint 7, ''email'' \<mapsto> Str ''amy@example.com'',
                               ''role'' \<mapsto> Str ''student''))"
    by blast
  from g amy_token have tok: "tok = ''HS256.amy.75''" by simp
  from a tok users_path[of "''HS256.amy.75''"] bearer_request_header[of "''/api/users/7''" "''HS256.amy.75''"]
  have "AuthMiddleware plain_lib defaultConfig 1700050000000000000
        (bearer_request ''/api/users/7'' ''HS256.amy.75'') Map.empty
      = (Next, [''userID'' \<mapsto> Uint 7, ''email'' \<mapsto> Str ''amy@example.com'',
                ''role'' \<mapsto> Str ''student''])" by blast
  with c t amy_token show ?thesis by blast
qed

lemma bad_signature_parse:
  assumes "token_parts L tok = Some (a, cl, sg, input)" and "a \<in> set hmac_algs"
    and "sg \<noteq> hmac L a (Secret (Application cfg)) input"
  shows "ParseWithClaims L tok (keyFunc cfg) now
           = Inl (newError [] ErrTokenSignatureInvalid [the_sentinel ErrSignatureInvalid])"
proof -
  from assms(1) obtain h c s where sp: "Split tok (CHR ''.'') = [h, c, s]"
    and dh: "decode_header L h = Some (Some a)" and dc: "decode_claims L c = Some cl"
    and ds: "DecodeSegment L s = Some sg" and inp: "input = h @ ''.'' @ c"
    by (auto simp: token_parts_def split: list.splits option.splits)
  from assms(2) have gm: "GetSigningMethod a = Some (SigningMethodHMAC a)"
    by (simp add: GetSigningMethod_HMAC)
  show ?thesis
    using sp dh dc ds inp gm assms(3)
    by (simp add: ParseWithClaims_def ParseUnverified_def keyFunc_def Let_def)
qed

lemma bad_signature_kind:
  "Is (newError [] ErrTokenSignatureInvalid [the_sentinel ErrSignatureInvalid]) s
     \<longleftrightarrow> s = ErrTokenSignatureInvalid \<or> s = ErrSignatureInvalid"
  by (auto simp: Is_def newError_def the_sentinel_def)

text \<open>
  C6, as amended. A token signed with one key, whose signature is not the HMAC of its
  signing input under the configured secret, never verifies under that secret, at any time:
  the filter answers 401 with the body of the invalid-signature category and leaves the
  context unchanged.
\<close>

theorem different_key_bad_signature:
  assumes "signed_with L key tok" and "\<not> signed_with L (Secret (Application cfg)) tok"
  shows "verified L (Secret (Application cfg)) now tok = None
       \<and> (\<forall>req keys. \<not> is_public (Path req) \<and> bearer_token req = Some tok \<longrightarrow>
            AuthMiddleware L cfg now req keys = (Abort 401 ''Invalid token signature'', keys))"
proof -
  from assms(1) obtain a cl sg input where tp: "token_parts L tok = Some (a, cl, sg, input)"
    and a: "a \<in> set hmac_algs"
    by (auto simp: signed_with_def split: option.splits)
  from assms(2) tp a have ne: "sg \<noteq> hmac L a (Secret (Application cfg)) input"
    by (simp add: signed_with_def)
  have v: "verified L (Secret (Application cfg)) now tok = None"
    using tp ne by (simp add: verified_def)
  note p = bad_signature_parse[OF tp a ne, of now]
  have r: "AuthMiddleware L cfg now req keys = (Abort 401 ''Invalid token signature'', keys)"
    if "\<not> is_public (Path req)" and "bearer_token req = Some tok" for req keys
    by (simp add: AuthMiddleware_bearer[OF that] p bad_signature_kind)
  from v r show ?thesis by blast
qed

lemma other_hmac: "hmac plain_lib ''HS256'' ''othersecret'' ''HS256.amy'' = ''9c''"
  by code_simp

lemma amy_signed: "signed_with plain_lib ''mysecret'' ''HS256.amy.75''"
  by (simp add: signed_with_def plain_parts plain_hmac hmac_algs_def)

lemma amy_not_signed_other: "\<not> signed_with plain_lib (Secret (Application other_config)) ''HS256.amy.75''"
  by (simp add: signed_with_def plain_parts other_hmac other_config_def)

theorem different_key_bad_signature_witness:
  "signed_with plain_lib ''mysecret'' ''HS256.amy.75''
   \<and> \<not> signed_with plain_lib (Secret (Application other_config)) ''HS256.amy.75''
   \<and> \<not> is_public (Path (bearer_request ''/api/users/7'' ''HS256.amy.75''))
   \<and> bearer_token (bearer_request ''/api/users/7'' ''HS256.amy.75'') = Some ''HS256.amy.75''
   \<and> AuthMiddleware plain_lib other_config 1700000000000000000
        (bearer_request ''/api/users/7'' ''HS256.amy.75'') Map.empty
      = (Abort 401 ''Invalid token signature'', Map.empty)"
proof -
  note th = different_key_bad_signature[OF amy_signed amy_not_signed_other, of 1700000000000000000]
  from th users_path[of "''HS256.amy.75''"] amy_bearer
  have "AuthMiddleware plain_lib other_config 1700000000000000000
        (bearer_request ''/api/users/7'' ''HS256.amy.75'') Map.empty
      = (Abort 401 ''Invalid token signature'', Map.empty)" by blast
  with amy_signed amy_not_signed_other users_path[of "''HS256.amy.75''"] amy_bearer
  show ?thesis by blast
qed

text \<open>
  C6 as stated fails: a different key can give the same HMAC. HMAC pads a key shorter than
  the block with zero bytes (\<open>hmac_zero_padded_key\<close>, for every digest), so the secret
  followed by a zero byte verifies the tokens signed with the secret.
\<close>

theorem padded_key_verifies:
  "Secret (Application padded_config) \<noteq> Secret (Application defaultConfig)
   \<and> GenerateToken plain_lib defaultConfig 1700000000123456789 1700000000123456999 7
        ''amy@example.com'' ''student'' = Inr ''HS256.amy.75''
   \<and> signed_with plain_lib (Secret (Application defaultConfig)) ''HS256.amy.75''
   \<and> AuthMiddleware plain_lib padded_config 1700000000000000000
        (bearer_request ''/api/users/7'' ''HS256.amy.75'') Map.empty
      = (Next, with_identity Map.empty amy)"
proof -
  have k: "Secret (Application padded_config) = ''mysecret'' @ [CHR 0x00]"
    by (simp add: padded_config_def)
  have ne: "Secret (Application padded_config) \<noteq> Secret (Application defaultConfig)"
    by (simp add: padded_config_def defaultConfig_def)
  have "verified plain_lib (''mysecret'' @ [CHR 0x00]) 1700000000000000000 ''HS256.amy.75''
          = verified plain_lib ''mysecret'' 1700000000000000000 ''HS256.amy.75''"
    by (rule verified_zero_padded_key) simp
  with amy_verified k have v: "verified plain_lib (Secret (Application padded_config)) 1700000000000000000
          ''HS256.amy.75'' = Some amy" by simp
  note acc = AuthMiddleware_accepted[OF users_path amy_bearer v, of Map.empty]
  from ne amy_token amy_signed default_secret acc show ?thesis by simp
qed

section \<open>The signing secret\<close>

lemma Validate_ignores_secret:
  "Validate (cfg\<lparr>Application := a\<rparr>) = Validate cfg"
  by (simp add: Validate_def)

lemma Validate_port_message:
  "Validate (defaultConfig\<lparr>Server := \<lparr>Server_Host = ''127.0.0.1'', Server_Port = 70000\<rparr>\<rparr>)
     = Some ''invalid server port: 70000''"
  by (simp add: Validate_def format_int_def)

lemma overrideFromEnv_Application: "Application (overrideFromEnv env cfg) = Application cfg"
  by (simp add: overrideFromEnv_def Let_def)

text \<open>
  C9, as amended. The environment never changes the signing secret: \<open>overrideFromEnv\<close>
  leaves it as it found it. Without a configuration file the secret is the built-in default,
  which is not empty; with one, it is whatever \<open>loadFromFile\<close> left, empty or not,
  and \<open>Validate\<close> does not depend on it.
\<close>

theorem secret_not_from_environment:
  "Secret (Application (overrideFromEnv env cfg)) = Secret (Application cfg)
   \<and> LoadConfig loadFromFile env [] = (overrideFromEnv env defaultConfig, None)
   \<and> Secret (Application (fst (LoadConfig loadFromFile env []))) = ''mysecret''
   \<and> (\<forall>c. loadFromFile configFile defaultConfig = (c, None) \<and> configFile \<noteq> [] \<longrightarrow>
          Secret (Application (fst (LoadConfig loadFromFile env configFile)))
            = Secret (Application c))
   \<and> Validate (cfg\<lparr>Application := \<lparr>Secret = secret\<rparr>\<rparr>) = Validate cfg"
proof -
  have a: "Secret (Application (overrideFromEnv env cfg)) = Secret (Application cfg)"
    by (simp add: overrideFromEnv_Application)
  have b: "LoadConfig loadFromFile env [] = (overrideFromEnv env defaultConfig, None)"
    by (simp add: LoadConfig_def)
  have c: "Secret (Application (fst (LoadConfig loadFromFile env []))) = ''mysecret''"
    by (simp add: b overrideFromEnv_Application) (simp add: defaultConfig_def)
  have d: "\<forall>c. loadFromFile configFile defaultConfig = (c, None) \<and> configFile \<noteq> [] \<longrightarrow>
          Secret (Application (fst (LoadConfig loadFromFile env configFile)))
            = Secret (Application c)"
    by (simp add: LoadConfig_def overrideFromEnv_Application)
  have e: "Validate (cfg\<lparr>Application := \<lparr>Secret = secret\<rparr>\<rparr>) = Validate cfg"
    by (rule Validate_ignores_secret)
  from a b c d e show ?thesis by blast
qed

theorem secret_not_from_environment_witness:
  "empty_secret_file ''config.json'' defaultConfig
      = (defaultConfig\<lparr>Application := \<lparr>Secret = []\<rparr>\<rparr>, None)
   \<and> ''config.json'' \<noteq> []
   \<and> Secret (Application (fst (LoadConfig empty_secret_file secret_env ''config.json''))) = []"
proof -
  have h: "empty_secret_file ''config.json'' defaultConfig
             = (defaultConfig\<lparr>Application := \<lparr>Secret = []\<rparr>\<rparr>, None)
           \<and> ''config.json'' \<noteq> []" by (simp add: empty_secret_file_def)
  from secret_not_from_environment[of secret_env defaultConfig empty_secret_file "''config.json''"]
  have "\<forall>c. empty_secret_file ''config.json'' defaultConfig = (c, None) \<and> ''config.json'' \<noteq> []
          \<longrightarrow> Secret (Application (fst (LoadConfig empty_secret_file secret_env ''config.json'')))
            = Secret (Application c)" by blast
  with h have "Secret (Application (fst (LoadConfig empty_secret_file secret_env ''config.json'')))
            = Secret (Application (defaultConfig\<lparr>Application := \<lparr>Secret = []\<rparr>\<rparr>))" by blast
  then have "Secret (Application (fst (LoadConfig empty_secret_file secret_env ''config.json''))) = []"
    by simp
  with h show ?thesis by blast
qed

text \<open>
  C9 as stated fails: with a secret in the environment the signing secret is still the
  built-in default, and a secret that the file left empty stays empty.
\<close>

theorem environment_secret_ignored:
  "Getenv secret_env ''JWT_SECRET'' = ''s3cret''
   \<and> Secret (Application (overrideFromEnv secret_env defaultConfig)) = ''mysecret''
   \<and> Secret (Application (fst (LoadConfig empty_secret_file secret_env ''config.json''))) = []"
  by (simp add: overrideFromEnv_Application Getenv_def secret_env_def LoadConfig_def
        empty_secret_file_def)
     (simp add: defaultConfig_def)

end
